theory Spec2Isabelle
  imports Complex_Main
begin

section \<open>Values, exceptions and the host's floating point\<close>

text \<open>
  The evaluator \<^verbatim>\<open>jsonLogic\<close> of \<^verbatim>\<open>json_logic/__init__.py\<close> works on JSON-compatible
  Python values: \<^verbatim>\<open>None\<close>, \<^verbatim>\<open>bool\<close>, \<^verbatim>\<open>int\<close> (unbounded), \<^verbatim>\<open>float\<close>, \<^verbatim>\<open>str\<close>,
  \<^verbatim>\<open>list\<close> and \<^verbatim>\<open>dict\<close> with string keys. A dict is an association list in insertion
  order (the evaluator reads the first key of a rule); a key is looked up with \<open>map_of\<close>.
  The type \<open>'f\<close> is the host's float: its arithmetic is not fixed here (see \<open>host\<close>).
  Tuples are not JSON values, so the tests \<^verbatim>\<open>isinstance(x, tuple)\<close> of the source have no
  counterpart here. The source's functions \<^verbatim>\<open>if_\<close>, \<^verbatim>\<open>less\<close>, \<^verbatim>\<open>plus\<close> and \<^verbatim>\<open>minus\<close> are
  \<open>if_op\<close>, \<open>less_op\<close>, \<open>plus_op\<close> and \<open>minus_op\<close> below.
\<close>

datatype 'f pyval =
    PNone
  | PBool bool
  | PInt int
  | PFloat 'f
  | PStr string
  | PList "'f pyval list"
  | PDict "(string \<times> 'f pyval) list"

text \<open>
  The exceptions the code and the built-ins it calls can raise. A \<^verbatim>\<open>ValueError\<close> records
  where it was raised: the two \<^verbatim>\<open>raise ValueError(...)\<close> of the source, or a built-in
  (\<^verbatim>\<open>int()\<close>, \<^verbatim>\<open>float()\<close>, \<^verbatim>\<open>min()\<close>, \<^verbatim>\<open>max()\<close>).
\<close>

datatype value_error = Unknown_variable | Unrecognized_operation | Builtin_value_error

datatype exn =
    IndexError
  | KeyError
  | TypeError
  | ValueError value_error
  | ZeroDivisionError
  | OverflowError

text \<open>
  What a string denotes when \<^verbatim>\<open>float(s)\<close> accepts it: a signed decimal (the sign is
  kept apart, for \<^verbatim>\<open>-0.0\<close>), an infinity, or a NaN.
\<close>

datatype flit = Dec bool rat | Infinity bool | Nan

datatype pytype = NoneType | Bool_t | Int_t | Float_t | Str_t | List_t | Dict_t

text \<open>
  The host: IEEE double arithmetic and the few CPython built-ins whose results depend on
  it or on formatting rules outside this repository. Every function below takes the host
  as its first argument \<open>H\<close>; the theorems hold for every host.
  \<^item> \<open>f_of_int n\<close> is \<^verbatim>\<open>float(n)\<close> for an int in range, \<open>f_of_lit\<close> the double nearest to a
    literal;
  \<^item> \<open>f_eq\<close>, \<open>f_lt\<close> compare two floats; \<open>f_eq_int x n\<close>, \<open>f_lt_int x n\<close>, \<open>f_gt_int x n\<close>
    are \<^verbatim>\<open>x == n\<close>, \<^verbatim>\<open>x < n\<close>, \<^verbatim>\<open>x > n\<close> for a float and an int (Python compares these
    exactly);
  \<^item> \<open>f_neg\<close>, \<open>f_add\<close>, \<open>f_sub\<close>, \<open>f_mul\<close>, \<open>f_div\<close>, \<open>f_mod\<close> are the arithmetic (division
    and remainder are only called with a non-zero divisor);
  \<^item> \<open>f_repr\<close> is \<^verbatim>\<open>repr\<close> of a float, \<open>f_isclose\<close> is \<^verbatim>\<open>math.isclose(a, b)\<close> with its
    default tolerances (relative 1e-09, absolute 0);
  \<^item> \<open>str_repr\<close> is \<^verbatim>\<open>repr\<close> of a string, \<open>str_format\<close> is \<^verbatim>\<open>s % v\<close> for a string \<open>s\<close>.
\<close>

record 'f host =
  f_of_int :: "int \<Rightarrow> 'f"
  f_of_lit :: "flit \<Rightarrow> 'f"
  f_eq :: "'f \<Rightarrow> 'f \<Rightarrow> bool"
  f_lt :: "'f \<Rightarrow> 'f \<Rightarrow> bool"
  f_eq_int :: "'f \<Rightarrow> int \<Rightarrow> bool"
  f_lt_int :: "'f \<Rightarrow> int \<Rightarrow> bool"
  f_gt_int :: "'f \<Rightarrow> int \<Rightarrow> bool"
  f_neg :: "'f \<Rightarrow> 'f"
  f_add :: "'f \<Rightarrow> 'f \<Rightarrow> 'f"
  f_sub :: "'f \<Rightarrow> 'f \<Rightarrow> 'f"
  f_mul :: "'f \<Rightarrow> 'f \<Rightarrow> 'f"
  f_div :: "'f \<Rightarrow> 'f \<Rightarrow> 'f"
  f_mod :: "'f \<Rightarrow> 'f \<Rightarrow> 'f"
  f_repr :: "'f \<Rightarrow> string"
  f_isclose :: "'f \<Rightarrow> 'f \<Rightarrow> bool"
  str_repr :: "string \<Rightarrow> string"
  str_format :: "string \<Rightarrow> 'f pyval \<Rightarrow> exn + string"

section \<open>Python built-ins on these values\<close>

fun py_type :: "'f pyval \<Rightarrow> pytype" where
  "py_type PNone = NoneType"
| "py_type (PBool _) = Bool_t"
| "py_type (PInt _) = Int_t"
| "py_type (PFloat _) = Float_t"
| "py_type (PStr _) = Str_t"
| "py_type (PList _) = List_t"
| "py_type (PDict _) = Dict_t"

text \<open>\<^verbatim>\<open>bool(v)\<close>, the test of \<^verbatim>\<open>if v\<close>, \<^verbatim>\<open>v and w\<close>, \<^verbatim>\<open>v or w\<close>, \<^verbatim>\<open>not v\<close>.\<close>

fun truthy :: "'f host \<Rightarrow> 'f pyval \<Rightarrow> bool" where
  "truthy H PNone = False"
| "truthy H (PBool b) = b"
| "truthy H (PInt n) = (n \<noteq> 0)"
| "truthy H (PFloat x) = (\<not> f_eq H x (f_of_int H 0))"
| "truthy H (PStr s) = (s \<noteq> [])"
| "truthy H (PList xs) = (xs \<noteq> [])"
| "truthy H (PDict kvs) = (kvs \<noteq> [])"

subsection \<open>Strings: \<^verbatim>\<open>split\<close>, \<^verbatim>\<open>strip\<close>, \<^verbatim>\<open>int(s)\<close>, \<^verbatim>\<open>float(s)\<close>\<close>

text \<open>
  A string is a list of characters with code points below 256. \<^verbatim>\<open>s.split(".")\<close> never
  returns the empty list: the empty string splits into one empty segment. \<open>is_space\<close> is
  the whitespace that \<^verbatim>\<open>int(s)\<close> and \<^verbatim>\<open>float(s)\<close> skip around a literal: the ASCII
  characters tab to carriage return and space, and the two other spaces of that range,
  U+0085 and U+00A0 (the separators U+001C to U+001F are not skipped by them).
\<close>

fun split_on :: "char \<Rightarrow> string \<Rightarrow> string list" where
  "split_on c [] = [[]]"
| "split_on c (x # xs) =
     (if x = c then [] # split_on c xs
      else (case split_on c xs of [] \<Rightarrow> [[x]] | w # ws \<Rightarrow> (x # w) # ws))"

definition is_space :: "char \<Rightarrow> bool" where
  "is_space c = (let n = (of_char c :: nat) in (9 \<le> n \<and> n \<le> 13) \<or> n = 32 \<or> n = 133 \<or> n = 160)"

definition strip :: "string \<Rightarrow> string" where
  "strip s = rev (dropWhile is_space (rev (dropWhile is_space s)))"

definition is_digit :: "char \<Rightarrow> bool" where
  "is_digit c = (let n = (of_char c :: nat) in 48 \<le> n \<and> n \<le> 57)"

definition digit_val :: "char \<Rightarrow> nat" where
  "digit_val c = of_char c - 48"

definition lower :: "char \<Rightarrow> char" where
  "lower c = (let n = (of_char c :: nat) in if 65 \<le> n \<and> n \<le> 90 then char_of (n + 32) else c)"

text \<open>
  The digits of \<^verbatim>\<open>digit (["_"] digit)*\<close>, the digit part of Python's numeric literals:
  single underscores are allowed between digits only.
\<close>

fun digitpart :: "string \<Rightarrow> nat list option" where
  "digitpart [] = None"
| "digitpart [c] = (if is_digit c then Some [digit_val c] else None)"
| "digitpart (c # d # rest) =
     (if is_digit c
      then map_option ((#) (digit_val c)) (if d = CHR ''_'' then digitpart rest else digitpart (d # rest))
      else None)"

definition nat_of_digits :: "nat list \<Rightarrow> nat" where
  "nat_of_digits ds = foldl (\<lambda>a d. 10 * a + d) 0 ds"

text \<open>
  \<^verbatim>\<open>int(s)\<close> in base 10: surrounding whitespace, one optional sign, a digit part.
  Anything else raises \<^verbatim>\<open>ValueError\<close>.
\<close>

definition int_of_str :: "string \<Rightarrow> exn + int" where
  "int_of_str s =
     (let t = strip s;
          (neg, body) = (case t of
                           [] \<Rightarrow> (False, [])
                         | c # r \<Rightarrow> if c = CHR ''-'' then (True, r)
                                    else if c = CHR ''+'' then (False, r) else (False, t))
      in case digitpart body of
           None \<Rightarrow> Inl (ValueError Builtin_value_error)
         | Some ds \<Rightarrow> Inr (if neg then - int (nat_of_digits ds) else int (nat_of_digits ds)))"

text \<open>
  \<^verbatim>\<open>float(s)\<close>: surrounding whitespace, one optional sign, then \<^verbatim>\<open>inf\<close>, \<^verbatim>\<open>infinity\<close> or
  \<^verbatim>\<open>nan\<close> in any case, or a decimal \<^verbatim>\<open>[digits][.[digits]][(e|E)[sign]digits]\<close> with a digit
  before or after the point. \<open>None\<close> is the \<^verbatim>\<open>ValueError\<close> of a string outside this grammar.
\<close>

definition split_first :: "(char \<Rightarrow> bool) \<Rightarrow> string \<Rightarrow> string \<times> string option" where
  "split_first p s =
     (case dropWhile (\<lambda>c. \<not> p c) s of
        [] \<Rightarrow> (s, None)
      | _ # r \<Rightarrow> (takeWhile (\<lambda>c. \<not> p c) s, Some r))"

definition mantissa :: "string \<Rightarrow> rat option" where
  "mantissa m =
     (case split_first (\<lambda>c. c = CHR ''.'') m of
        (ip, None) \<Rightarrow> map_option (\<lambda>ds. of_nat (nat_of_digits ds)) (digitpart ip)
      | (ip, Some fp) \<Rightarrow>
          (if ip = [] \<and> fp = [] then None
           else case (if ip = [] then Some [] else digitpart ip,
                      if fp = [] then Some [] else digitpart fp) of
                  (Some ids, Some fds) \<Rightarrow>
                    Some (of_nat (nat_of_digits ids) + of_nat (nat_of_digits fds) / 10 ^ length fds)
                | _ \<Rightarrow> None))"

definition exponent :: "string \<Rightarrow> int option" where
  "exponent e =
     (case e of
        [] \<Rightarrow> None
      | c # r \<Rightarrow>
          if c = CHR ''-'' then map_option (\<lambda>ds. - int (nat_of_digits ds)) (digitpart r)
          else if c = CHR ''+'' then map_option (\<lambda>ds. int (nat_of_digits ds)) (digitpart r)
          else map_option (\<lambda>ds. int (nat_of_digits ds)) (digitpart e))"

definition decimal :: "string \<Rightarrow> rat option" where
  "decimal s =
     (case split_first (\<lambda>c. c = CHR ''e'' \<or> c = CHR ''E'') s of
        (m, None) \<Rightarrow> mantissa m
      | (m, Some e) \<Rightarrow>
          (case (mantissa m, exponent e) of
             (Some q, Some k) \<Rightarrow> Some (if 0 \<le> k then q * 10 ^ nat k else q / 10 ^ nat (- k))
           | _ \<Rightarrow> None))"

definition float_literal :: "string \<Rightarrow> flit option" where
  "float_literal s =
     (let t = strip s;
          (neg, body) = (case t of
                           [] \<Rightarrow> (False, [])
                         | c # r \<Rightarrow> if c = CHR ''-'' then (True, r)
                                    else if c = CHR ''+'' then (False, r) else (False, t));
          l = map lower body
      in if l = ''inf'' \<or> l = ''infinity'' then Some (Infinity neg)
         else if l = ''nan'' then Some Nan
         else map_option (Dec neg) (decimal body))"

subsection \<open>\<^verbatim>\<open>str\<close> and \<^verbatim>\<open>repr\<close>\<close>

fun show_nat :: "nat \<Rightarrow> string" where
  "show_nat n =
     (if n < 10 then [char_of (48 + n)] else show_nat (n div 10) @ [char_of (48 + n mod 10)])"

declare show_nat.simps [simp del]

definition show_int :: "int \<Rightarrow> string" where
  "show_int i = (if i < 0 then CHR ''-'' # show_nat (nat (- i)) else show_nat (nat i))"

fun join :: "string \<Rightarrow> string list \<Rightarrow> string" where
  "join sep [] = []"
| "join sep [x] = x"
| "join sep (x # y # ys) = x @ sep @ join sep (y # ys)"

fun py_repr :: "'f host \<Rightarrow> 'f pyval \<Rightarrow> string"
  and py_repr_list :: "'f host \<Rightarrow> 'f pyval list \<Rightarrow> string list"
  and py_repr_items :: "'f host \<Rightarrow> (string \<times> 'f pyval) list \<Rightarrow> string list" where
  "py_repr H PNone = ''None''"
| "py_repr H (PBool b) = (if b then ''True'' else ''False'')"
| "py_repr H (PInt n) = show_int n"
| "py_repr H (PFloat x) = f_repr H x"
| "py_repr H (PStr s) = str_repr H s"
| "py_repr H (PList xs) = ''['' @ join '', '' (py_repr_list H xs) @ '']''"
| "py_repr H (PDict kvs) = ''{'' @ join '', '' (py_repr_items H kvs) @ ''}''"
| "py_repr_list H [] = []"
| "py_repr_list H (x # xs) = py_repr H x # py_repr_list H xs"
| "py_repr_items H [] = []"
| "py_repr_items H ((k, v) # kvs) = (str_repr H k @ '': '' @ py_repr H v) # py_repr_items H kvs"

text \<open>\<^verbatim>\<open>str(v)\<close>: a string is itself, everything else prints as its \<^verbatim>\<open>repr\<close>.\<close>

definition py_str :: "'f host \<Rightarrow> 'f pyval \<Rightarrow> string" where
  "py_str H v = (case v of PStr s \<Rightarrow> s | _ \<Rightarrow> py_repr H v)"

subsection \<open>Numbers\<close>

text \<open>
  \<^verbatim>\<open>bool\<close> is a subclass of \<^verbatim>\<open>int\<close>: in arithmetic and comparisons \<^verbatim>\<open>True\<close> is 1 and
  \<^verbatim>\<open>False\<close> is 0. \<open>as_num\<close> is the number a value stands for there, if any.
\<close>

datatype 'f num = NInt int | NFloat 'f

fun as_num :: "'f pyval \<Rightarrow> 'f num option" where
  "as_num (PBool b) = Some (NInt (if b then 1 else 0))"
| "as_num (PInt n) = Some (NInt n)"
| "as_num (PFloat x) = Some (NFloat x)"
| "as_num _ = None"

text \<open>
  \<^verbatim>\<open>float(n)\<close> raises \<^verbatim>\<open>OverflowError\<close> for an int that rounds (half to even) beyond the
  largest double, \<open>2 ^ 1024 - 2 ^ 971\<close>.
\<close>

definition float_overflows :: "int \<Rightarrow> bool" where
  "float_overflows n = (2 ^ 1024 - 2 ^ 970 \<le> \<bar>n\<bar>)"

definition num_float :: "'f host \<Rightarrow> 'f num \<Rightarrow> exn + 'f" where
  "num_float H n =
     (case n of
        NInt i \<Rightarrow> if float_overflows i then Inl OverflowError else Inr (f_of_int H i)
      | NFloat x \<Rightarrow> Inr x)"

text \<open>\<^verbatim>\<open>float(v)\<close>.\<close>

definition py_float :: "'f host \<Rightarrow> 'f pyval \<Rightarrow> exn + 'f" where
  "py_float H v =
     (case v of
        PStr s \<Rightarrow> (case float_literal s of
                     None \<Rightarrow> Inl (ValueError Builtin_value_error)
                   | Some l \<Rightarrow> Inr (f_of_lit H l))
      | _ \<Rightarrow> (case as_num v of None \<Rightarrow> Inl TypeError | Some n \<Rightarrow> num_float H n))"

definition f_is_zero :: "'f host \<Rightarrow> 'f \<Rightarrow> bool" where
  "f_is_zero H x = f_eq H x (f_of_int H 0)"

text \<open>A binary float operation on two numbers: both are converted first.\<close>

definition float_op :: "'f host \<Rightarrow> ('f \<Rightarrow> 'f \<Rightarrow> 'f) \<Rightarrow> 'f num \<Rightarrow> 'f num \<Rightarrow> exn + 'f pyval" where
  "float_op H f a b =
     (case num_float H a of
        Inl e \<Rightarrow> Inl e
      | Inr x \<Rightarrow> (case num_float H b of Inl e \<Rightarrow> Inl e | Inr y \<Rightarrow> Inr (PFloat (f x y))))"

text \<open>\<^verbatim>\<open>a + b\<close>.\<close>

definition py_add :: "'f host \<Rightarrow> 'f pyval \<Rightarrow> 'f pyval \<Rightarrow> exn + 'f pyval" where
  "py_add H a b =
     (case (as_num a, as_num b) of
        (Some (NInt m), Some (NInt n)) \<Rightarrow> Inr (PInt (m + n))
      | (Some x, Some y) \<Rightarrow> float_op H (f_add H) x y
      | _ \<Rightarrow> (case (a, b) of
                (PStr s, PStr t) \<Rightarrow> Inr (PStr (s @ t))
              | (PList xs, PList ys) \<Rightarrow> Inr (PList (xs @ ys))
              | _ \<Rightarrow> Inl TypeError))"

text \<open>\<^verbatim>\<open>a - b\<close>.\<close>

definition py_sub :: "'f host \<Rightarrow> 'f pyval \<Rightarrow> 'f pyval \<Rightarrow> exn + 'f pyval" where
  "py_sub H a b =
     (case (as_num a, as_num b) of
        (Some (NInt m), Some (NInt n)) \<Rightarrow> Inr (PInt (m - n))
      | (Some x, Some y) \<Rightarrow> float_op H (f_sub H) x y
      | _ \<Rightarrow> Inl TypeError)"

text \<open>\<^verbatim>\<open>-a\<close>.\<close>

definition py_neg :: "'f host \<Rightarrow> 'f pyval \<Rightarrow> exn + 'f pyval" where
  "py_neg H a =
     (case as_num a of
        Some (NInt m) \<Rightarrow> Inr (PInt (- m))
      | Some (NFloat x) \<Rightarrow> Inr (PFloat (f_neg H x))
      | None \<Rightarrow> Inl TypeError)"

text \<open>
  \<^verbatim>\<open>a % b\<close>: the remainder with the sign of the divisor for numbers (\<open>mod\<close> on \<open>int\<close> is
  the same floor remainder), string formatting when \<open>a\<close> is a string.
\<close>

definition py_mod :: "'f host \<Rightarrow> 'f pyval \<Rightarrow> 'f pyval \<Rightarrow> exn + 'f pyval" where
  "py_mod H a b =
     (case a of
        PStr s \<Rightarrow> (case str_format H s b of Inl e \<Rightarrow> Inl e | Inr r \<Rightarrow> Inr (PStr r))
      | _ \<Rightarrow>
        (case (as_num a, as_num b) of
           (Some (NInt m), Some (NInt n)) \<Rightarrow>
             if n = 0 then Inl ZeroDivisionError else Inr (PInt (m mod n))
         | (Some x, Some y) \<Rightarrow>
             (case num_float H x of
                Inl e \<Rightarrow> Inl e
              | Inr u \<Rightarrow> (case num_float H y of
                           Inl e \<Rightarrow> Inl e
                         | Inr v \<Rightarrow> if f_is_zero H v then Inl ZeroDivisionError
                                    else Inr (PFloat (f_mod H u v))))
         | _ \<Rightarrow> Inl TypeError))"

subsection \<open>Equality and order\<close>

fun num_eq :: "'f host \<Rightarrow> 'f num \<Rightarrow> 'f num \<Rightarrow> bool" where
  "num_eq H (NInt m) (NInt n) = (m = n)"
| "num_eq H (NFloat x) (NFloat y) = f_eq H x y"
| "num_eq H (NFloat x) (NInt n) = f_eq_int H x n"
| "num_eq H (NInt m) (NFloat y) = f_eq_int H y m"

fun num_lt :: "'f host \<Rightarrow> 'f num \<Rightarrow> 'f num \<Rightarrow> bool" where
  "num_lt H (NInt m) (NInt n) = (m < n)"
| "num_lt H (NFloat x) (NFloat y) = f_lt H x y"
| "num_lt H (NFloat x) (NInt n) = f_lt_int H x n"
| "num_lt H (NInt m) (NFloat y) = f_gt_int H y m"

text \<open>
  \<^verbatim>\<open>a == b\<close>, which never raises on these values: numbers compare by value across
  \<^verbatim>\<open>bool\<close>, \<^verbatim>\<open>int\<close> and \<^verbatim>\<open>float\<close>, lists element by element, dicts key by key whatever
  the order; values of unrelated types are unequal. (Object identity is not part of the
  model: CPython's shortcut that a container equals itself even around a NaN is not
  represented.)
\<close>

fun py_eq :: "'f host \<Rightarrow> 'f pyval \<Rightarrow> 'f pyval \<Rightarrow> bool"
  and py_eq_list :: "'f host \<Rightarrow> 'f pyval list \<Rightarrow> 'f pyval list \<Rightarrow> bool"
  and py_eq_items :: "'f host \<Rightarrow> (string \<times> 'f pyval) list \<Rightarrow> (string \<times> 'f pyval) list \<Rightarrow> bool" where
  "py_eq H PNone b = (case b of PNone \<Rightarrow> True | _ \<Rightarrow> False)"
| "py_eq H (PStr s) b = (case b of PStr t \<Rightarrow> s = t | _ \<Rightarrow> False)"
| "py_eq H (PList xs) b = (case b of PList ys \<Rightarrow> py_eq_list H xs ys | _ \<Rightarrow> False)"
| "py_eq H (PDict kvs) b =
     (case b of PDict m \<Rightarrow> length kvs = length m \<and> py_eq_items H kvs m | _ \<Rightarrow> False)"
| "py_eq H a b =
     (case (as_num a, as_num b) of (Some m, Some n) \<Rightarrow> num_eq H m n | _ \<Rightarrow> False)"
| "py_eq_list H [] ys = (ys = [])"
| "py_eq_list H (x # xs) ys =
     (case ys of [] \<Rightarrow> False | y # ys' \<Rightarrow> py_eq H x y \<and> py_eq_list H xs ys')"
| "py_eq_items H [] m = True"
| "py_eq_items H ((k, v) # kvs) m =
     (case map_of m k of None \<Rightarrow> False | Some v' \<Rightarrow> py_eq H v v' \<and> py_eq_items H kvs m)"

text \<open>Strings are ordered by code point, lexicographically.\<close>

fun str_lt :: "string \<Rightarrow> string \<Rightarrow> bool" where
  "str_lt [] t = (t \<noteq> [])"
| "str_lt (x # xs) [] = False"
| "str_lt (x # xs) (y # ys) =
     (if (of_char x :: nat) < of_char y then True
      else if x = y then str_lt xs ys else False)"

text \<open>
  \<^verbatim>\<open>a < b\<close>: defined between numbers, between strings and between lists (at the first
  position where they differ); \<^verbatim>\<open>TypeError\<close> otherwise.
\<close>

fun py_lt :: "'f host \<Rightarrow> 'f pyval \<Rightarrow> 'f pyval \<Rightarrow> exn + bool"
  and py_lt_list :: "'f host \<Rightarrow> 'f pyval list \<Rightarrow> 'f pyval list \<Rightarrow> exn + bool" where
  "py_lt H (PStr s) b = (case b of PStr t \<Rightarrow> Inr (str_lt s t) | _ \<Rightarrow> Inl TypeError)"
| "py_lt H (PList xs) b = (case b of PList ys \<Rightarrow> py_lt_list H xs ys | _ \<Rightarrow> Inl TypeError)"
| "py_lt H a b =
     (case (as_num a, as_num b) of
        (Some m, Some n) \<Rightarrow> Inr (num_lt H m n)
      | _ \<Rightarrow> Inl TypeError)"
| "py_lt_list H [] ys = Inr (ys \<noteq> [])"
| "py_lt_list H (x # xs) ys =
     (case ys of
        [] \<Rightarrow> Inr False
      | y # ys' \<Rightarrow> if py_eq H x y then py_lt_list H xs ys' else py_lt H x y)"

subsection \<open>Subscripting\<close>

text \<open>
  \<^verbatim>\<open>data[key]\<close> for a string key: a dict answers (or raises \<^verbatim>\<open>KeyError\<close>), every other
  value raises \<^verbatim>\<open>TypeError\<close>. \<^verbatim>\<open>data[i]\<close> for an int: lists and strings answer, negative
  indices counting from the end, or raise \<^verbatim>\<open>IndexError\<close>.
\<close>

fun getitem_str :: "'f pyval \<Rightarrow> string \<Rightarrow> exn + 'f pyval" where
  "getitem_str (PDict kvs) key = (case map_of kvs key of None \<Rightarrow> Inl KeyError | Some v \<Rightarrow> Inr v)"
| "getitem_str _ key = Inl TypeError"

definition seq_index :: "'a list \<Rightarrow> int \<Rightarrow> exn + 'a" where
  "seq_index xs i =
     (if 0 \<le> i
      then (if nat i < length xs then Inr (xs ! nat i) else Inl IndexError)
      else (if - i \<le> int (length xs) then Inr (xs ! (length xs - nat (- i)))
            else Inl IndexError))"

fun getitem_int :: "'f pyval \<Rightarrow> int \<Rightarrow> exn + 'f pyval" where
  "getitem_int (PList xs) i = seq_index xs i"
| "getitem_int (PStr s) i = (case seq_index s i of Inl e \<Rightarrow> Inl e | Inr c \<Rightarrow> Inr (PStr [c]))"
| "getitem_int (PDict kvs) i = Inl KeyError"
| "getitem_int _ i = Inl TypeError"

section \<open>The operators of \<^verbatim>\<open>json_logic/__init__.py\<close>\<close>

text \<open>
  \<^verbatim>\<open>if_(*args)\<close>: the loop \<^verbatim>\<open>for i in range(0, len(args) - 1, 2)\<close> returns the first
  \<^verbatim>\<open>(args[i + 1], i + 1)\<close> whose \<^verbatim>\<open>args[i]\<close> is truthy; after the loop an odd argument
  list gives its last element, an even one \<^verbatim>\<open>(None, None)\<close>.
\<close>

function if_loop :: "'f host \<Rightarrow> 'f pyval list \<Rightarrow> nat \<Rightarrow> ('f pyval \<times> nat) option" where
  "if_loop H args i =
     (if i + 1 < length args
      then (if truthy H (args ! i) then Some (args ! (i + 1), i + 1) else if_loop H args (i + 2))
      else None)"
  by pat_completeness auto
termination
  by (relation "measure (\<lambda>(H, args, i). length args - i)") auto

declare if_loop.simps [simp del]

definition if_op :: "'f host \<Rightarrow> 'f pyval list \<Rightarrow> 'f pyval \<times> nat option" where
  "if_op H args =
     (case if_loop H args 0 of
        Some (v, p) \<Rightarrow> (v, Some p)
      | None \<Rightarrow> if length args mod 2 = 1 then (last args, Some (length args - 1))
                else (PNone, None))"

text \<open>\<^verbatim>\<open>soft_equals(a, b)\<close>, the operator \<^verbatim>\<open>==\<close>.\<close>

definition soft_equals :: "'f host \<Rightarrow> 'f pyval \<Rightarrow> 'f pyval \<Rightarrow> bool" where
  "soft_equals H a b =
     (if py_type a = Str_t \<or> py_type b = Str_t then py_str H a = py_str H b
      else if py_type a = Bool_t \<or> py_type b = Bool_t then truthy H a = truthy H b
      else py_eq H a b)"

text \<open>
  \<^verbatim>\<open>almost_equal(a, b)\<close>: both are numbers (\<^verbatim>\<open>numbers.Number\<close> holds of \<^verbatim>\<open>bool\<close>, \<^verbatim>\<open>int\<close>
  and \<^verbatim>\<open>float\<close>) and \<^verbatim>\<open>math.isclose\<close> accepts them; \<^verbatim>\<open>math.isclose\<close> converts its
  arguments to floats first.
\<close>

definition almost_equal :: "'f host \<Rightarrow> 'f pyval \<Rightarrow> 'f pyval \<Rightarrow> exn + bool" where
  "almost_equal H a b =
     (case (as_num a, as_num b) of
        (Some m, Some n) \<Rightarrow>
          (case num_float H m of
             Inl e \<Rightarrow> Inl e
           | Inr x \<Rightarrow> (case num_float H n of Inl e \<Rightarrow> Inl e | Inr y \<Rightarrow> Inr (f_isclose H x y)))
      | _ \<Rightarrow> Inr False)"

text \<open>\<^verbatim>\<open>hard_equals(a, b)\<close>, the operator \<^verbatim>\<open>===\<close>.\<close>

definition hard_equals :: "'f host \<Rightarrow> 'f pyval \<Rightarrow> 'f pyval \<Rightarrow> exn + bool" where
  "hard_equals H a b =
     (if py_type a \<noteq> py_type b then Inr False
      else if py_eq H a b then Inr True
      else almost_equal H a b)"

text \<open>
  \<^verbatim>\<open>less(a, b, *args)\<close>, the operator \<^verbatim>\<open><\<close>. \<open>float_pair\<close> is the assignment
  \<^verbatim>\<open>a, b = float(a), float(b)\<close>; only a \<^verbatim>\<open>TypeError\<close> of it is caught.
\<close>

definition float_pair :: "'f host \<Rightarrow> 'f pyval \<Rightarrow> 'f pyval \<Rightarrow> exn + ('f pyval \<times> 'f pyval)" where
  "float_pair H a b =
     (case py_float H a of
        Inl e \<Rightarrow> Inl e
      | Inr x \<Rightarrow> (case py_float H b of Inl e \<Rightarrow> Inl e | Inr y \<Rightarrow> Inr (PFloat x, PFloat y)))"

fun less_op :: "'f host \<Rightarrow> 'f pyval \<Rightarrow> 'f pyval \<Rightarrow> 'f pyval list \<Rightarrow> exn + bool" where
  "less_op H a b args =
     (case (if py_type a \<in> {Float_t, Int_t} \<or> py_type b \<in> {Float_t, Int_t}
            then float_pair H a b else Inr (a, b)) of
        Inl e \<Rightarrow> if e = TypeError then Inr False else Inl e
      | Inr (a', b') \<Rightarrow>
          (case py_lt H a' b' of
             Inl e \<Rightarrow> Inl e
           | Inr lt \<Rightarrow>
               if \<not> lt then Inr False
               else (case args of [] \<Rightarrow> Inr True | c # rest \<Rightarrow> less_op H b' c rest)))"

declare less_op.simps [simp del]

text \<open>\<^verbatim>\<open>less_or_equal(a, b, *args)\<close>, the operator \<^verbatim>\<open><=\<close>.\<close>

fun less_or_equal :: "'f host \<Rightarrow> 'f pyval \<Rightarrow> 'f pyval \<Rightarrow> 'f pyval list \<Rightarrow> exn + bool" where
  "less_or_equal H a b args =
     (case less_op H a b [] of
        Inl e \<Rightarrow> Inl e
      | Inr lt \<Rightarrow>
          if lt \<or> soft_equals H a b
          then (case args of [] \<Rightarrow> Inr True | c # rest \<Rightarrow> less_or_equal H b c rest)
          else Inr False)"

declare less_or_equal.simps [simp del]

text \<open>\<^verbatim>\<open>to_numeric(arg)\<close>.\<close>

definition to_numeric :: "'f host \<Rightarrow> 'f pyval \<Rightarrow> exn + 'f pyval" where
  "to_numeric H arg =
     (case arg of
        PStr s \<Rightarrow>
          if CHR ''.'' \<in> set s
          then (case py_float H arg of Inl e \<Rightarrow> Inl e | Inr x \<Rightarrow> Inr (PFloat x))
          else (case int_of_str s of Inl e \<Rightarrow> Inl e | Inr n \<Rightarrow> Inr (PInt n))
      | _ \<Rightarrow> Inr arg)"

text \<open>\<^verbatim>\<open>plus(*args)\<close>: \<^verbatim>\<open>sum\<close> starts from the int 0 and adds the converted arguments in order.\<close>

fun plus_loop :: "'f host \<Rightarrow> 'f pyval \<Rightarrow> 'f pyval list \<Rightarrow> exn + 'f pyval" where
  "plus_loop H tot [] = Inr tot"
| "plus_loop H tot (arg # args) =
     (case to_numeric H arg of
        Inl e \<Rightarrow> Inl e
      | Inr x \<Rightarrow> (case py_add H tot x of Inl e \<Rightarrow> Inl e | Inr t \<Rightarrow> plus_loop H t args))"

definition plus_op :: "'f host \<Rightarrow> 'f pyval list \<Rightarrow> exn + 'f pyval" where
  "plus_op H args = plus_loop H (PInt 0) args"

text \<open>\<^verbatim>\<open>minus(*args)\<close>: with no argument \<^verbatim>\<open>args[0]\<close> raises \<^verbatim>\<open>IndexError\<close>.\<close>

definition minus_op :: "'f host \<Rightarrow> 'f pyval list \<Rightarrow> exn + 'f pyval" where
  "minus_op H args =
     (case args of
        [] \<Rightarrow> Inl IndexError
      | [x] \<Rightarrow> (case to_numeric H x of Inl e \<Rightarrow> Inl e | Inr u \<Rightarrow> py_neg H u)
      | x # y # _ \<Rightarrow>
          (case to_numeric H x of
             Inl e \<Rightarrow> Inl e
           | Inr u \<Rightarrow> (case to_numeric H y of Inl e \<Rightarrow> Inl e | Inr v \<Rightarrow> py_sub H u v)))"

text \<open>\<^verbatim>\<open>merge(*args)\<close>.\<close>

fun merge_loop :: "'f pyval list \<Rightarrow> 'f pyval list \<Rightarrow> 'f pyval list" where
  "merge_loop ret [] = ret"
| "merge_loop ret (arg # args) =
     (case arg of PList xs \<Rightarrow> merge_loop (ret @ xs) args | _ \<Rightarrow> merge_loop (ret @ [arg]) args)"

definition merge :: "'f pyval list \<Rightarrow> 'f pyval list" where
  "merge args = merge_loop [] args"

section \<open>Variables\<close>

text \<open>
  \<^verbatim>\<open>get_var(data, var_name, not_found=None)\<close>. \<open>get_var_walk\<close> is the loop over the
  segments of \<^verbatim>\<open>str(var_name).split(".")\<close>: \<^verbatim>\<open>data[key]\<close>, and on its \<^verbatim>\<open>TypeError\<close>
  \<^verbatim>\<open>data[int(key)]\<close>. \<open>caught\<close> is the clause \<^verbatim>\<open>except (KeyError, TypeError, ValueError)\<close>;
  an \<^verbatim>\<open>IndexError\<close> is not in it and propagates. \<open>get_var_try\<close> is the \<^verbatim>\<open>try\<close> statement:
  \<open>Inr (Some v)\<close> when the \<^verbatim>\<open>else\<close> branch returns \<open>v\<close>, \<open>Inr None\<close> when the handler runs.
\<close>

fun get_var_walk :: "'f pyval \<Rightarrow> string list \<Rightarrow> exn + 'f pyval" where
  "get_var_walk data [] = Inr data"
| "get_var_walk data (key # keys) =
     (case (case getitem_str data key of
              Inr v \<Rightarrow> Inr v
            | Inl e \<Rightarrow>
                if e = TypeError
                then (case int_of_str key of Inl e' \<Rightarrow> Inl e' | Inr i \<Rightarrow> getitem_int data i)
                else Inl e) of
        Inl e \<Rightarrow> Inl e
      | Inr d \<Rightarrow> get_var_walk d keys)"

fun caught :: "exn \<Rightarrow> bool" where
  "caught KeyError = True"
| "caught TypeError = True"
| "caught (ValueError _) = True"
| "caught _ = False"

definition get_var_try :: "'f host \<Rightarrow> 'f pyval \<Rightarrow> 'f pyval \<Rightarrow> exn + 'f pyval option" where
  "get_var_try H data var_name =
     (case get_var_walk data (split_on CHR ''.'' (py_str H var_name)) of
        Inr v \<Rightarrow> Inr (Some v)
      | Inl e \<Rightarrow> if caught e then Inr None else Inl e)"

definition get_var :: "'f host \<Rightarrow> 'f pyval \<Rightarrow> 'f pyval \<Rightarrow> 'f pyval \<Rightarrow> exn + 'f pyval" where
  "get_var H data var_name not_found =
     (case get_var_try H data var_name of
        Inl e \<Rightarrow> Inl e
      | Inr (Some v) \<Rightarrow> Inr v
      | Inr None \<Rightarrow>
          (case not_found of PNone \<Rightarrow> Inl (ValueError Unknown_variable) | _ \<Rightarrow> Inr not_found))"

text \<open>
  \<^verbatim>\<open>missing\<close> and \<^verbatim>\<open>missing_some\<close> pass a fresh \<^verbatim>\<open>object()\<close> as \<^verbatim>\<open>not_found\<close> and test
  \<^verbatim>\<open>get_var(data, arg, not_found) is not_found\<close>. No value of the data is that object, so
  the test holds exactly when the handler of \<^verbatim>\<open>get_var\<close> ran.
\<close>

definition is_not_found :: "'f host \<Rightarrow> 'f pyval \<Rightarrow> 'f pyval \<Rightarrow> exn + bool" where
  "is_not_found H data arg =
     (case get_var_try H data arg of
        Inl e \<Rightarrow> Inl e
      | Inr None \<Rightarrow> Inr True
      | Inr (Some v) \<Rightarrow> Inr False)"

text \<open>\<^verbatim>\<open>missing(data, *args)\<close>.\<close>

fun missing_loop ::
  "'f host \<Rightarrow> 'f pyval \<Rightarrow> 'f pyval list \<Rightarrow> 'f pyval list \<Rightarrow> exn + 'f pyval list" where
  "missing_loop H data ret [] = Inr ret"
| "missing_loop H data ret (arg # args) =
     (case is_not_found H data arg of
        Inl e \<Rightarrow> Inl e
      | Inr nf \<Rightarrow> missing_loop H data (if nf then ret @ [arg] else ret) args)"

definition missing :: "'f host \<Rightarrow> 'f pyval \<Rightarrow> 'f pyval list \<Rightarrow> exn + 'f pyval list" where
  "missing H data args =
     missing_loop H data [] (case args of PList xs # _ \<Rightarrow> xs | _ \<Rightarrow> args)"

text \<open>
  \<^verbatim>\<open>missing_some(data, min_required, args)\<close>. \<open>py_iter\<close> is what \<^verbatim>\<open>for arg in args\<close>
  iterates over; \<open>int_ge\<close> is \<^verbatim>\<open>found >= min_required\<close> for the int \<open>found\<close>.
\<close>

fun py_iter :: "'f pyval \<Rightarrow> exn + 'f pyval list" where
  "py_iter (PList xs) = Inr xs"
| "py_iter (PStr s) = Inr (map (\<lambda>c. PStr [c]) s)"
| "py_iter (PDict kvs) = Inr (map (\<lambda>kv. PStr (fst kv)) kvs)"
| "py_iter _ = Inl TypeError"

definition int_ge :: "'f host \<Rightarrow> int \<Rightarrow> 'f pyval \<Rightarrow> exn + bool" where
  "int_ge H found min_required =
     (case as_num min_required of
        Some (NInt n) \<Rightarrow> Inr (n \<le> found)
      | Some (NFloat x) \<Rightarrow> Inr (f_lt_int H x found \<or> f_eq_int H x found)
      | None \<Rightarrow> Inl TypeError)"

fun missing_some_loop ::
  "'f host \<Rightarrow> 'f pyval \<Rightarrow> 'f pyval \<Rightarrow> int \<Rightarrow> 'f pyval list \<Rightarrow> 'f pyval list \<Rightarrow> exn + 'f pyval list" where
  "missing_some_loop H data min_required found ret [] = Inr ret"
| "missing_some_loop H data min_required found ret (arg # args) =
     (case is_not_found H data arg of
        Inl e \<Rightarrow> Inl e
      | Inr nf \<Rightarrow>
          if nf then missing_some_loop H data min_required found (ret @ [arg]) args
          else (case int_ge H (found + 1) min_required of
                  Inl e \<Rightarrow> Inl e
                | Inr enough \<Rightarrow>
                    if enough then Inr []
                    else missing_some_loop H data min_required (found + 1) ret args))"

definition missing_some ::
  "'f host \<Rightarrow> 'f pyval \<Rightarrow> 'f pyval \<Rightarrow> 'f pyval \<Rightarrow> exn + 'f pyval list" where
  "missing_some H data min_required args =
     (case py_lt H min_required (PInt 1) of
        Inl e \<Rightarrow> Inl e
      | Inr below \<Rightarrow>
          if below then Inr []
          else (case py_iter args of
                  Inl e \<Rightarrow> Inl e
                | Inr names \<Rightarrow> missing_some_loop H data min_required 0 [] names))"

section \<open>The table \<^verbatim>\<open>operations\<close>\<close>

text \<open>
  Calling a Python function with the wrong number of arguments raises \<^verbatim>\<open>TypeError\<close>:
  \<open>args1\<close>, \<open>args2\<close> and \<open>args3\<close> are the calls \<^verbatim>\<open>f(*args)\<close> of a function of one, two
  and three parameters.
\<close>

definition args1 :: "('a \<Rightarrow> exn + 'b) \<Rightarrow> 'a list \<Rightarrow> exn + 'b" where
  "args1 f args = (case args of [a] \<Rightarrow> f a | _ \<Rightarrow> Inl TypeError)"

definition args2 :: "('a \<Rightarrow> 'a \<Rightarrow> exn + 'b) \<Rightarrow> 'a list \<Rightarrow> exn + 'b" where
  "args2 f args = (case args of [a, b] \<Rightarrow> f a b | _ \<Rightarrow> Inl TypeError)"

definition args3 :: "('a \<Rightarrow> 'a \<Rightarrow> 'a \<Rightarrow> exn + 'b) \<Rightarrow> 'a list \<Rightarrow> exn + 'b" where
  "args3 f args = (case args of [a, b, c] \<Rightarrow> f a b c | _ \<Rightarrow> Inl TypeError)"

definition bool_result :: "exn + bool \<Rightarrow> exn + 'f pyval" where
  "bool_result r = (case r of Inl e \<Rightarrow> Inl e | Inr b \<Rightarrow> Inr (PBool b))"

definition not_result :: "exn + bool \<Rightarrow> exn + 'f pyval" where
  "not_result r = (case r of Inl e \<Rightarrow> Inl e | Inr b \<Rightarrow> Inr (PBool (\<not> b)))"

text \<open>\<^verbatim>\<open>a in b if "__contains__" in dir(b) else False\<close>: strings, lists and dicts contain.\<close>

fun is_prefix :: "string \<Rightarrow> string \<Rightarrow> bool" where
  "is_prefix [] t = True"
| "is_prefix (x # xs) [] = False"
| "is_prefix (x # xs) (y # ys) = (x = y \<and> is_prefix xs ys)"

fun is_substring :: "string \<Rightarrow> string \<Rightarrow> bool" where
  "is_substring s [] = (s = [])"
| "is_substring s (y # ys) = (is_prefix s (y # ys) \<or> is_substring s ys)"

definition py_in :: "'f host \<Rightarrow> 'f pyval \<Rightarrow> 'f pyval \<Rightarrow> exn + 'f pyval" where
  "py_in H a b =
     (case b of
        PStr t \<Rightarrow> (case a of PStr s \<Rightarrow> Inr (PBool (is_substring s t)) | _ \<Rightarrow> Inl TypeError)
      | PList ys \<Rightarrow> Inr (PBool (list_ex (\<lambda>y. py_eq H y a) ys))
      | PDict kvs \<Rightarrow>
          (case a of
             PList _ \<Rightarrow> Inl TypeError
           | PDict _ \<Rightarrow> Inl TypeError
           | PStr s \<Rightarrow> Inr (PBool (map_of kvs s \<noteq> None))
           | _ \<Rightarrow> Inr (PBool False))
      | _ \<Rightarrow> Inr (PBool False))"

text \<open>
  \<^verbatim>\<open>reduce(lambda total, arg: total * float(arg), args, 1)\<close>, the operator \<^verbatim>\<open>*\<close>.
\<close>

fun times_loop :: "'f host \<Rightarrow> 'f pyval \<Rightarrow> 'f pyval list \<Rightarrow> exn + 'f pyval" where
  "times_loop H tot [] = Inr tot"
| "times_loop H tot (arg # args) =
     (case py_float H arg of
        Inl e \<Rightarrow> Inl e
      | Inr x \<Rightarrow>
          (case as_num tot of
             None \<Rightarrow> Inl TypeError
           | Some n \<Rightarrow> (case float_op H (f_mul H) n (NFloat x) of
                         Inl e \<Rightarrow> Inl e
                       | Inr t \<Rightarrow> times_loop H t args)))"

text \<open>\<^verbatim>\<open>lambda a, b=None: a if b is None else float(a) / float(b)\<close>, the operator \<^verbatim>\<open>/\<close>.\<close>

definition divide_op :: "'f host \<Rightarrow> 'f pyval list \<Rightarrow> exn + 'f pyval" where
  "divide_op H args =
     (case args of
        [a] \<Rightarrow> Inr a
      | [a, b] \<Rightarrow>
          (case b of
             PNone \<Rightarrow> Inr a
           | _ \<Rightarrow> (case py_float H a of
                     Inl e \<Rightarrow> Inl e
                   | Inr x \<Rightarrow> (case py_float H b of
                                Inl e \<Rightarrow> Inl e
                              | Inr y \<Rightarrow> if f_is_zero H y then Inl ZeroDivisionError
                                         else Inr (PFloat (f_div H x y)))))
      | _ \<Rightarrow> Inl TypeError)"

text \<open>
  \<^verbatim>\<open>min(args)\<close> and \<^verbatim>\<open>max(args)\<close> of the argument tuple: \<^verbatim>\<open>ValueError\<close> when it is empty;
  otherwise the first element is kept until a later one is smaller (\<^verbatim>\<open>item < best\<close>) or
  larger (\<^verbatim>\<open>item > best\<close>, which on these values is \<^verbatim>\<open>best < item\<close>).
\<close>

fun min_loop :: "'f host \<Rightarrow> 'f pyval \<Rightarrow> 'f pyval list \<Rightarrow> exn + 'f pyval" where
  "min_loop H best [] = Inr best"
| "min_loop H best (item # items) =
     (case py_lt H item best of
        Inl e \<Rightarrow> Inl e
      | Inr lt \<Rightarrow> min_loop H (if lt then item else best) items)"

fun max_loop :: "'f host \<Rightarrow> 'f pyval \<Rightarrow> 'f pyval list \<Rightarrow> exn + 'f pyval" where
  "max_loop H best [] = Inr best"
| "max_loop H best (item # items) =
     (case py_lt H best item of
        Inl e \<Rightarrow> Inl e
      | Inr gt \<Rightarrow> max_loop H (if gt then item else best) items)"

definition min_op :: "'f host \<Rightarrow> 'f pyval list \<Rightarrow> exn + 'f pyval" where
  "min_op H args =
     (case args of [] \<Rightarrow> Inl (ValueError Builtin_value_error) | x # xs \<Rightarrow> min_loop H x xs)"

definition max_op :: "'f host \<Rightarrow> 'f pyval list \<Rightarrow> exn + 'f pyval" where
  "max_op H args =
     (case args of [] \<Rightarrow> Inl (ValueError Builtin_value_error) | x # xs \<Rightarrow> max_loop H x xs)"

text \<open>
  The keys of \<^verbatim>\<open>operations\<close>, in the order of the source, and the call
  \<^verbatim>\<open>operations[name](*args)\<close>. The entry of \<^verbatim>\<open>if\<close> is \<^verbatim>\<open>if_\<close>, which returns a pair;
  \<^verbatim>\<open>jsonLogic\<close>, its only caller, unpacks it, so that entry is \<open>if_op\<close> and is called
  from \<open>jsonLogic_apply\<close> below. The record that \<^verbatim>\<open>log\<close> emits is not modelled; its value is.
\<close>

definition operation_names :: "string list" where
  "operation_names =
     [''=='', ''==='', ''!='', ''!=='', ''>'', ''>='', ''<'', ''<='', ''!'', ''!!'', ''%'',
      ''and'', ''or'', ''?:'', ''if'', ''log'', ''in'', ''cat'', ''+'', ''*'', ''-'', ''/'',
      ''min'', ''max'', ''merge'', ''count'']"

definition operations :: "'f host \<Rightarrow> string \<Rightarrow> 'f pyval list \<Rightarrow> exn + 'f pyval" where
  "operations H name args =
     (if name = ''=='' then args2 (\<lambda>a b. Inr (PBool (soft_equals H a b))) args
      else if name = ''==='' then args2 (\<lambda>a b. bool_result (hard_equals H a b)) args
      else if name = ''!='' then args2 (\<lambda>a b. Inr (PBool (\<not> soft_equals H a b))) args
      else if name = ''!=='' then args2 (\<lambda>a b. not_result (hard_equals H a b)) args
      else if name = ''>'' then args2 (\<lambda>a b. bool_result (less_op H b a [])) args
      else if name = ''>='' then
        args2 (\<lambda>a b. case less_op H b a [] of
                        Inl e \<Rightarrow> Inl e
                      | Inr lt \<Rightarrow> Inr (PBool (lt \<or> soft_equals H a b))) args
      else if name = ''<'' then
        (case args of a # b # rest \<Rightarrow> bool_result (less_op H a b rest) | _ \<Rightarrow> Inl TypeError)
      else if name = ''<='' then
        (case args of a # b # rest \<Rightarrow> bool_result (less_or_equal H a b rest) | _ \<Rightarrow> Inl TypeError)
      else if name = ''!'' then args1 (\<lambda>a. Inr (PBool (\<not> truthy H a))) args
      else if name = ''!!'' then
        (case args of [] \<Rightarrow> Inr (PBool False) | [a] \<Rightarrow> Inr (PBool (truthy H a)) | _ \<Rightarrow> Inl TypeError)
      else if name = ''%'' then args2 (py_mod H) args
      else if name = ''and'' then
        Inr (foldl (\<lambda>tot arg. if truthy H tot then arg else tot) (PBool True) args)
      else if name = ''or'' then
        Inr (foldl (\<lambda>tot arg. if truthy H tot then tot else arg) (PBool False) args)
      else if name = ''?:'' then args3 (\<lambda>a b c. Inr (if truthy H a then b else c)) args
      else if name = ''log'' then args1 Inr args
      else if name = ''in'' then args2 (py_in H) args
      else if name = ''cat'' then Inr (PStr (concat (map (py_str H) args)))
      else if name = ''+'' then plus_op H args
      else if name = ''*'' then times_loop H (PInt 1) args
      else if name = ''-'' then minus_op H args
      else if name = ''/'' then divide_op H args
      else if name = ''min'' then min_op H args
      else if name = ''max'' then max_op H args
      else if name = ''merge'' then Inr (PList (merge args))
      else if name = ''count'' then Inr (PInt (int (length (filter (truthy H) args))))
      else Inl (ValueError Unrecognized_operation))"

section \<open>The evaluator \<^verbatim>\<open>jsonLogic\<close>\<close>

text \<open>
  What \<^verbatim>\<open>jsonLogic\<close> does once the operands are evaluated: \<open>new_values\<close> are their values
  and \<open>executed\<close> their traces, and \<^verbatim>\<open>executed_logic = {operator: executed_logic}\<close>.
  \<open>with_trace\<close> pairs a result with a trace.
\<close>

definition with_trace :: "'f pyval \<Rightarrow> exn + 'f pyval \<Rightarrow> exn + ('f pyval \<times> 'f pyval)" where
  "with_trace t r = (case r of Inl e \<Rightarrow> Inl e | Inr v \<Rightarrow> Inr (v, t))"

definition list_result :: "exn + 'f pyval list \<Rightarrow> exn + 'f pyval" where
  "list_result r = (case r of Inl e \<Rightarrow> Inl e | Inr xs \<Rightarrow> Inr (PList xs))"

definition jsonLogic_apply ::
  "'f host \<Rightarrow> string \<Rightarrow> 'f pyval \<Rightarrow> 'f pyval list \<Rightarrow> 'f pyval list \<Rightarrow> exn + ('f pyval \<times> 'f pyval)" where
  "jsonLogic_apply H operator data new_values executed =
     (let executed_logic = PDict [(operator, PList executed)] in
      if operator = ''var'' then
        with_trace executed_logic
          (case new_values of
             [var_name] \<Rightarrow> get_var H data var_name PNone
           | [var_name, not_found] \<Rightarrow> get_var H data var_name not_found
           | _ \<Rightarrow> Inl TypeError)
      else if operator = ''missing'' then
        with_trace executed_logic (list_result (missing H data new_values))
      else if operator = ''missing_some'' then
        with_trace executed_logic
          (list_result (args2 (missing_some H data) new_values))
      else if operator \<notin> set operation_names then Inl (ValueError Unrecognized_operation)
      else if operator = ''if'' then
        (case if_op H new_values of
           (result, None) \<Rightarrow> Inr (result, PDict [])
         | (result, Some branch_taken) \<Rightarrow>
             if branch_taken < length executed then Inr (result, executed ! branch_taken)
             else Inl IndexError)
      else with_trace executed_logic (operations H operator new_values))"

text \<open>
  \<^verbatim>\<open>jsonLogic(tests, data)\<close>. A value that is not a dict is returned as value and trace.
  Otherwise \<^verbatim>\<open>data = data or {}\<close> (\<open>data_or_empty\<close>), the operator is the first key (\<^verbatim>\<open>IndexError\<close> on an
  empty dict), an operand that is not a list stands for the list of itself, and
  \<open>jsonLogic_list\<close> is the loop that evaluates the operands in order, stopping at the first
  exception.
\<close>

definition data_or_empty :: "'f host \<Rightarrow> 'f pyval \<Rightarrow> 'f pyval" where
  "data_or_empty H data = (if truthy H data then data else PDict [])"

function jsonLogic :: "'f host \<Rightarrow> 'f pyval \<Rightarrow> 'f pyval \<Rightarrow> exn + ('f pyval \<times> 'f pyval)"
  and jsonLogic_list ::
    "'f host \<Rightarrow> 'f pyval list \<Rightarrow> 'f pyval \<Rightarrow> exn + ('f pyval \<times> 'f pyval) list" where
  "jsonLogic H tests data0 =
     (case tests of
        PDict kvs \<Rightarrow>
          (let data = data_or_empty H data0 in
           case kvs of
             [] \<Rightarrow> Inl IndexError
           | (operator, vals) # _ \<Rightarrow>
               (case jsonLogic_list H (case vals of PList vs \<Rightarrow> vs | _ \<Rightarrow> [vals]) data of
                  Inl e \<Rightarrow> Inl e
                | Inr rs \<Rightarrow> jsonLogic_apply H operator data (map fst rs) (map snd rs)))
      | _ \<Rightarrow> Inr (tests, tests))"
| "jsonLogic_list H [] data = Inr []"
| "jsonLogic_list H (val # vals) data =
     (case jsonLogic H val data of
        Inl e \<Rightarrow> Inl e
      | Inr r \<Rightarrow> (case jsonLogic_list H vals data of Inl e \<Rightarrow> Inl e | Inr rs \<Rightarrow> Inr (r # rs)))"
  by pat_completeness auto
termination
  by (relation "measure (\<lambda>x. case x of Inl (H, t, d) \<Rightarrow> size t
                                   | Inr (H, vs, d) \<Rightarrow> size_list size vs)")
     (auto split: pyval.splits)

declare jsonLogic.simps [simp del]

section \<open>Empty nodes of a rule\<close>

text \<open>
  \<open>has_empty t\<close>: the evaluation of \<open>t\<close> meets an empty dict, as the rule itself or,
  below the first key of a dict, among the operands that \<^verbatim>\<open>jsonLogic\<close> recurses into.
\<close>

fun has_empty :: "'f pyval \<Rightarrow> bool"
  and has_empty_list :: "'f pyval list \<Rightarrow> bool" where
  "has_empty (PDict []) = True"
| "has_empty (PDict ((operator, PList ts) # rest)) = has_empty_list ts"
| "has_empty (PDict ((operator, v) # rest)) = has_empty v"
| "has_empty _ = False"
| "has_empty_list [] = False"
| "has_empty_list (t # ts) = (has_empty t \<or> has_empty_list ts)"

section \<open>Notions for stating the scan of \<^verbatim>\<open>missing_some\<close>\<close>

text \<open>
  \<open>found_count\<close> is the number of names of a list that \<^verbatim>\<open>get_var\<close> finds in the data;
  \<open>lookups_return\<close> says that every lookup of the list returns, found or not, rather
  than letting an exception through.
\<close>

definition found_count :: "'f host \<Rightarrow> 'f pyval \<Rightarrow> 'f pyval list \<Rightarrow> nat" where
  "found_count H data names = length (filter (\<lambda>x. is_not_found H data x = Inr False) names)"

definition lookups_return :: "'f host \<Rightarrow> 'f pyval \<Rightarrow> 'f pyval list \<Rightarrow> bool" where
  "lookups_return H data names = list_all (\<lambda>x. case is_not_found H data x of Inl e \<Rightarrow> False | Inr b \<Rightarrow> True) names"

section \<open>A host with exact arithmetic\<close>

text \<open>
  To run the model on concrete inputs a host is needed. \<open>exact_host\<close> takes the rationals
  as floats and computes exactly: it has no rounding, no infinity and no NaN (their
  literals are read as 0), \<^verbatim>\<open>math.isclose\<close> is CPython's formula
  \<^verbatim>\<open>a == b or |a - b| <= |1e-09 * b| or |a - b| <= |1e-09 * a|\<close>; it prints an integral
  float as Python does (\<^verbatim>\<open>2.0\<close>) and any other as a fraction, quotes a string without
  escaping, and refuses every \<^verbatim>\<open>%\<close>-format. It is used only where a closed statement
  needs some host; the statements about every host \<open>H\<close> do not depend on it.
\<close>

definition exact_repr :: "rat \<Rightarrow> string" where
  "exact_repr q =
     (let (n, d) = quotient_of q
      in if d = 1 then show_int n @ ''.0'' else show_int n @ ''/'' @ show_int d)"

definition exact_isclose :: "rat \<Rightarrow> rat \<Rightarrow> bool" where
  "exact_isclose a b =
     (a = b \<or> \<bar>b - a\<bar> \<le> \<bar>b / 10 ^ 9\<bar> \<or> \<bar>b - a\<bar> \<le> \<bar>a / 10 ^ 9\<bar>)"

definition exact_host :: "rat host" where
  "exact_host =
     \<lparr> f_of_int = of_int,
       f_of_lit = (\<lambda>l. case l of Dec neg q \<Rightarrow> (if neg then - q else q) | _ \<Rightarrow> 0),
       f_eq = (=),
       f_lt = (<),
       f_eq_int = (\<lambda>x n. x = of_int n),
       f_lt_int = (\<lambda>x n. x < of_int n),
       f_gt_int = (\<lambda>x n. x > of_int n),
       f_neg = uminus,
       f_add = (+),
       f_sub = (-),
       f_mul = (*),
       f_div = (/),
       f_mod = (\<lambda>x y. x - y * of_int \<lfloor>x / y\<rfloor>),
       f_repr = exact_repr,
       f_isclose = exact_isclose,
       str_repr = (\<lambda>s. [CHR 0x27] @ s @ [CHR 0x27]),
       str_format = (\<lambda>s v. Inl TypeError) \<rparr>"

section \<open>Properties of the evaluator\<close>

subsection \<open>Auxiliary facts\<close>

lemma data_or_empty_idem: "data_or_empty H (data_or_empty H d) = data_or_empty H d"
  by (simp add: data_or_empty_def)

lemma jsonLogic_data_or_empty: "jsonLogic H t (data_or_empty H d) = jsonLogic H t d"
  by (cases t) (simp_all add: jsonLogic.simps data_or_empty_def)

lemma jsonLogic_list_data_or_empty:
  "jsonLogic_list H vs (data_or_empty H d) = jsonLogic_list H vs d"
  by (induction vs) (auto simp: jsonLogic_data_or_empty split: sum.splits)

lemma jsonLogic_list_pointwise:
  "jsonLogic_list H vs d = Inr rs \<longleftrightarrow>
     length rs = length vs \<and> (\<forall>i<length vs. jsonLogic H (vs ! i) d = Inr (rs ! i))"
proof (induction vs arbitrary: rs)
  case Nil
  then show ?case by auto
next
  case (Cons v vs)
  show ?case
  proof (cases rs)
    case Nil
    then show ?thesis by (auto split: sum.splits)
  next
    case (Cons r rs')
    then show ?thesis using Cons.IH [of rs']
      by (auto simp: nth_Cons All_less_Suc2 split: sum.splits nat.splits)
  qed
qed

lemma if_loop_found:
  "i + 2 * n + 1 < length args \<Longrightarrow> truthy H (args ! (i + 2 * n)) \<Longrightarrow>
   (\<forall>m<n. \<not> truthy H (args ! (i + 2 * m))) \<Longrightarrow>
   if_loop H args i = Some (args ! (i + 2 * n + 1), i + 2 * n + 1)"
proof (induction n arbitrary: i)
  case 0
  then show ?case by (simp add: if_loop.simps)
next
  case (Suc n)
  have nt: "\<not> truthy H (args ! i)" using Suc.prems(3) by (metis add.right_neutral mult_0_right zero_less_Suc)
  have step: "if_loop H args i = if_loop H args (i + 2)"
    using Suc.prems(1) nt by (subst if_loop.simps) simp
  have "\<forall>m<n. \<not> truthy H (args ! (i + 2 + 2 * m))"
  proof (intro allI impI)
    fix m assume "m < n"
    then have "\<not> truthy H (args ! (i + 2 * Suc m))" using Suc.prems(3) by blast
    then show "\<not> truthy H (args ! (i + 2 + 2 * m))" by (simp add: add.commute add.left_commute)
  qed
  with Suc.IH [of "i + 2"] Suc.prems(1,2) show ?case
    by (simp add: step add.commute add.left_commute)
qed

lemma if_loop_none:
  "(\<forall>m. i + 2 * m + 1 < length args \<longrightarrow> \<not> truthy H (args ! (i + 2 * m))) \<Longrightarrow>
   if_loop H args i = None"
proof (induction H args i rule: if_loop.induct)
  case (1 H args i)
  show ?case
  proof (cases "i + 1 < length args")
    case False
    then show ?thesis by (subst if_loop.simps) simp
  next
    case True
    have nt: "\<not> truthy H (args ! i)" using "1.prems" True
      by (metis add.right_neutral mult_0_right)
    have "\<forall>m. i + 2 + 2 * m + 1 < length args \<longrightarrow> \<not> truthy H (args ! (i + 2 + 2 * m))"
    proof (intro allI impI)
      fix m assume "i + 2 + 2 * m + 1 < length args"
      then have "i + 2 * Suc m + 1 < length args" by simp
      then have "\<not> truthy H (args ! (i + 2 * Suc m))" using "1.prems" by blast
      then show "\<not> truthy H (args ! (i + 2 + 2 * m))" by (simp add: add.commute add.left_commute)
    qed
    with "1.IH" True nt have "if_loop H args (i + 2) = None" by blast
    then show ?thesis using True nt by (subst if_loop.simps) simp
  qed
qed

lemma jsonLogic_if:
  "jsonLogic H (PDict [(''if'', PList operands)]) data =
     (case jsonLogic_list H operands data of
        Inl e \<Rightarrow> Inl e
      | Inr rs \<Rightarrow>
          (case if_op H (map fst rs) of
             (result, None) \<Rightarrow> Inr (result, PDict [])
           | (result, Some branch_taken) \<Rightarrow>
               if branch_taken < length rs then Inr (result, map snd rs ! branch_taken)
               else Inl IndexError))"
  using jsonLogic_list_data_or_empty [of H operands data]
  by (simp add: jsonLogic.simps jsonLogic_apply_def operation_names_def data_or_empty_def
        split: sum.splits)


lemma if_loop_position:
  "if_loop H args i = Some (v, p) \<Longrightarrow> p < length args \<and> v = args ! p"
proof (induction H args i rule: if_loop.induct)
  case (1 H args i)
  then show ?case
    by (subst (asm) (2) if_loop.simps) (auto split: if_splits)
qed

lemma if_op_position:
  "if_op H args = (v, Some p) \<Longrightarrow> p < length args \<and> v = args ! p"
proof -
  assume a: "if_op H args = (v, Some p)"
  show ?thesis
  proof (cases "if_loop H args 0")
    case None
    with a have odd: "length args mod 2 = 1" and v: "v = last args" and p: "p = length args - 1"
      by (auto simp: if_op_def split: if_splits)
    from odd have "args \<noteq> []" by auto
    then show ?thesis using v p by (simp add: last_conv_nth)
  next
    case (Some r)
    with a have "if_loop H args 0 = Some (v, p)"
      by (cases r) (auto simp: if_op_def)
    then show ?thesis by (rule if_loop_position)
  qed
qed

lemma jsonLogic_apply_trace:
  assumes "jsonLogic_apply H operator data new_values executed = Inr (v, t)"
  shows "(operator \<noteq> ''if'' \<and> t = PDict [(operator, PList executed)])
       \<or> (operator = ''if'' \<and> (t = PDict []
              \<or> (\<exists>p. p < length executed \<and> p < length new_values
                       \<and> t = executed ! p \<and> v = new_values ! p)))"
proof (cases "operator = ''if''")
  case True
  obtain r b where r: "if_op H new_values = (r, b)" by (cases "if_op H new_values")
  show ?thesis
  proof (cases b)
    case None
    with assms True r show ?thesis
      by (simp add: jsonLogic_apply_def operation_names_def)
  next
    case (Some p)
    with r have "p < length new_values \<and> r = new_values ! p" by (simp add: if_op_position)
    with assms True r Some show ?thesis
      by (auto simp: jsonLogic_apply_def operation_names_def split: if_splits)
  qed
next
  case False
  with assms show ?thesis
    by (auto simp: jsonLogic_apply_def with_trace_def Let_def split: if_splits sum.splits)
qed

lemma jsonLogic_operation_node:
  "jsonLogic H (PDict ((operator, PList ts) # rest)) data0 =
     (case jsonLogic_list H ts (data_or_empty H data0) of
        Inl e \<Rightarrow> Inl e
      | Inr rs \<Rightarrow> jsonLogic_apply H operator (data_or_empty H data0) (map fst rs) (map snd rs))"
  by (simp add: jsonLogic.simps Let_def)

lemma jsonLogic_list_reeval:
  "length rs = length ts \<Longrightarrow>
   (\<forall>i<length ts. jsonLogic H (ts ! i) d
        = (if has_empty (ts ! i) then Inl IndexError else Inr (rs ! i))) \<Longrightarrow>
   jsonLogic_list H ts d = (if has_empty_list ts then Inl IndexError else Inr rs)"
proof (induction ts arbitrary: rs)
  case Nil
  then show ?case by simp
next
  case (Cons t ts)
  then obtain r rs' where rs: "rs = r # rs'" by (cases rs) auto
  have hd: "jsonLogic H t d = (if has_empty t then Inl IndexError else Inr r)"
    using Cons.prems(2) rs by auto
  have tl: "\<forall>i<length ts. jsonLogic H (ts ! i) d
              = (if has_empty (ts ! i) then Inl IndexError else Inr (rs' ! i))"
    using Cons.prems(2) rs by auto
  have "jsonLogic_list H ts d = (if has_empty_list ts then Inl IndexError else Inr rs')"
    using Cons.IH [of rs'] Cons.prems(1) rs tl by simp
  with hd rs show ?case by simp
qed

lemma jsonLogic_list_length:
  "jsonLogic_list H vs d = Inr rs \<Longrightarrow> length rs = length vs"
  by (induction vs arbitrary: rs) (auto split: sum.splits)

lemma reeval_aux:
  "\<forall>v t. jsonLogic H tests data0 = Inr (v, t) \<longrightarrow>
      jsonLogic H t data0 = (if has_empty t then Inl IndexError else Inr (v, t))"
  "\<forall>rs. jsonLogic_list H vs data = Inr rs \<longrightarrow>
      (\<forall>i<length rs. jsonLogic H (snd (rs ! i)) data
          = (if has_empty (snd (rs ! i)) then Inl IndexError else Inr (rs ! i)))"
proof (induction H tests data0 and H vs data rule: jsonLogic_jsonLogic_list.induct)
  case (1 H tests data0)
  show ?case
  proof (intro allI impI)
    fix v t
    assume ev: "jsonLogic H tests data0 = Inr (v, t)"
    show "jsonLogic H t data0 = (if has_empty t then Inl IndexError else Inr (v, t))"
    proof (cases tests)
      case (PDict kvs)
      with ev obtain operator vals rest where kvs: "kvs = (operator, vals) # rest"
        by (cases kvs) (auto simp: jsonLogic.simps Let_def)
      define d where "d = data_or_empty H data0"
      define operands where "operands = (case vals of PList vs \<Rightarrow> vs | _ \<Rightarrow> [vals])"
      from ev PDict kvs obtain rs where
        rs: "jsonLogic_list H operands d = Inr rs" and
        ap: "jsonLogic_apply H operator d (map fst rs) (map snd rs) = Inr (v, t)"
        by (auto simp: jsonLogic.simps Let_def d_def operands_def split: sum.splits)
      have IH: "\<forall>i<length rs. jsonLogic H (snd (rs ! i)) d
                  = (if has_empty (snd (rs ! i)) then Inl IndexError else Inr (rs ! i))"
        using "1" [OF PDict d_def kvs refl] rs by (simp add: operands_def)
      from jsonLogic_apply_trace [OF ap]
      show ?thesis
      proof (elim disjE conjE exE)
        assume nif: "operator \<noteq> ''if''" and t: "t = PDict [(operator, PList (map snd rs))]"
        have "jsonLogic_list H (map snd rs) d
                = (if has_empty_list (map snd rs) then Inl IndexError else Inr rs)"
          using IH by (intro jsonLogic_list_reeval) auto
        then show ?thesis
          using ap t by (auto simp: jsonLogic_operation_node d_def)
      next
        assume "t = PDict []"
        then show ?thesis by (simp add: jsonLogic.simps)
      next
        fix p
        assume p: "p < length (map snd rs)" "p < length (map fst rs)"
          and t: "t = map snd rs ! p" and v: "v = map fst rs ! p"
        then have "rs ! p = (v, t)" by (simp add: prod_eq_iff)
        with IH p have "jsonLogic H t d = (if has_empty t then Inl IndexError else Inr (v, t))"
          by (metis length_map snd_conv)
        then show ?thesis by (simp add: d_def jsonLogic_data_or_empty)
      qed
    qed (use ev in \<open>auto simp: jsonLogic.simps\<close>)
  qed
next
  case (2 H data)
  then show ?case by simp
next
  case (3 H val vals data)
  show ?case
  proof (intro allI impI)
    fix rs i
    assume ev: "jsonLogic_list H (val # vals) data = Inr rs" and i: "i < length rs"
    then obtain r rs' where r: "jsonLogic H val data = Inr r"
      and rs': "jsonLogic_list H vals data = Inr rs'" and rs: "rs = r # rs'"
      by (auto split: sum.splits)
    show "jsonLogic H (snd (rs ! i)) data
           = (if has_empty (snd (rs ! i)) then Inl IndexError else Inr (rs ! i))"
    proof (cases i)
      case 0
      then show ?thesis using "3.IH"(1) r rs by (cases r) auto
    next
      case (Suc j)
      then show ?thesis using "3.IH"(2) [OF r] rs' rs i by auto
    qed
  qed
qed

lemma float_literal_abc: "float_literal ''abc'' = None"
  by (simp add: float_literal_def strip_def is_space_def lower_def decimal_def split_first_def
        mantissa_def is_digit_def)

lemma small_no_overflow: "\<not> float_overflows 1"
  by (simp add: float_overflows_def)

lemma int_of_str_empty: "int_of_str [] = Inl (ValueError Builtin_value_error)"
  by (simp add: int_of_str_def strip_def)

lemma get_var_empty_path:
  "get_var H data (PStr []) PNone =
     (case data of
        PDict kvs \<Rightarrow> (case map_of kvs [] of
                       Some v \<Rightarrow> Inr v
                     | None \<Rightarrow> Inl (ValueError Unknown_variable))
      | _ \<Rightarrow> Inl (ValueError Unknown_variable))"
  by (cases data)
     (simp_all add: get_var_def get_var_try_def py_str_def int_of_str_empty split: option.splits)

lemma missing_some_loop_completes:
  "lookups_return H data names \<Longrightarrow> found + int (found_count H data names) < m \<Longrightarrow>
   missing_some_loop H data (PInt m) found ret names
     = Inr (ret @ filter (\<lambda>x. is_not_found H data x = Inr True) names)"
proof (induction names arbitrary: found ret)
  case Nil
  then show ?case by simp
next
  case (Cons a names)
  then show ?case
    by (auto simp: lookups_return_def found_count_def int_ge_def split: sum.splits)
qed

lemma missing_some_loop_satisfied:
  "lookups_return H data pre \<Longrightarrow> is_not_found H data a = Inr False \<Longrightarrow>
   found + int (found_count H data pre) + 1 = m \<Longrightarrow>
   missing_some_loop H data (PInt m) found ret (pre @ a # post) = Inr []"
proof (induction pre arbitrary: found ret)
  case Nil
  then show ?case by (simp add: found_count_def int_ge_def)
next
  case (Cons b pre)
  from Cons.prems(1) obtain nf where nf: "is_not_found H data b = Inr nf"
    and rest: "lookups_return H data pre"
    by (auto simp: lookups_return_def split: sum.splits)
  show ?case
  proof (cases nf)
    case True
    then have "found + int (found_count H data pre) + 1 = m"
      using Cons.prems(3) nf by (simp add: found_count_def)
    from Cons.IH [OF rest Cons.prems(2) this] show ?thesis
      using nf True by simp
  next
    case False
    then have m: "(found + 1) + int (found_count H data pre) + 1 = m"
      using Cons.prems(3) nf by (simp add: found_count_def)
    then have "\<not> m \<le> found + 1" by linarith
    with Cons.IH [OF rest Cons.prems(2) m] show ?thesis
      using nf False by (simp add: int_ge_def)
  qed
qed

lemma apple_has_a: "is_not_found exact_host (PDict [(''a'', PStr ''apple'')]) (PStr ''a'') = Inr False"
  by (simp add: is_not_found_def get_var_try_def py_str_def)
lemma apple_lacks_b: "is_not_found exact_host (PDict [(''a'', PStr ''apple'')]) (PStr ''b'') = Inr True"
  by (simp add: is_not_found_def get_var_try_def py_str_def)
lemma apple_lacks_c: "is_not_found exact_host (PDict [(''a'', PStr ''apple'')]) (PStr ''c'') = Inr True"
  by (simp add: is_not_found_def get_var_try_def py_str_def)

lemma int_of_str_5: "int_of_str ''5'' = Inr 5"
  by (simp add: int_of_str_def strip_def is_space_def digit_val_def is_digit_def nat_of_digits_def)

lemma jsonLogic_non_dict:
  "py_type v \<noteq> Dict_t \<Longrightarrow> jsonLogic H v d = Inr (v, v)"
  by (cases v) (simp_all add: jsonLogic.simps)

subsection \<open>The claims\<close>

text \<open>
  C1. The rule \<^verbatim>\<open>{"if": operands}\<close>, once its operands have been evaluated (\<open>rs ! i\<close> is
  the value and the trace of operand \<open>i\<close>): when the condition at position \<open>2 * k\<close> is the
  first truthy condition of a (condition, result) pair, the rule returns the value of the
  paired operand \<open>2 * k + 1\<close> and, as trace, the trace of that operand alone; when no
  condition of a pair is truthy and the number of operands is even (no trailing else), it
  returns \<^verbatim>\<open>None\<close> with the empty dict as trace.
\<close>

theorem if_selects_branch:
  assumes len: "length rs = length operands"
    and ops: "\<forall>i<length operands. jsonLogic H (operands ! i) data = Inr (rs ! i)"
  shows "(2 * k + 1 < length operands \<and> truthy H (fst (rs ! (2 * k)))
            \<and> (\<forall>j<k. \<not> truthy H (fst (rs ! (2 * j))))
          \<longrightarrow> jsonLogic H (PDict [(''if'', PList operands)]) data = Inr (rs ! (2 * k + 1)))
       \<and> (even (length operands)
            \<and> (\<forall>j. 2 * j + 1 < length operands \<longrightarrow> \<not> truthy H (fst (rs ! (2 * j))))
          \<longrightarrow> jsonLogic H (PDict [(''if'', PList operands)]) data = Inr (PNone, PDict []))"
proof -
  have list: "jsonLogic_list H operands data = Inr rs"
    using len ops by (simp add: jsonLogic_list_pointwise)
  show ?thesis
  proof (intro conjI impI)
    assume a: "2 * k + 1 < length operands \<and> truthy H (fst (rs ! (2 * k)))
            \<and> (\<forall>j<k. \<not> truthy H (fst (rs ! (2 * j))))"
    then have "if_loop H (map fst rs) 0 = Some (map fst rs ! (0 + 2 * k + 1), 0 + 2 * k + 1)"
      using len by (intro if_loop_found) auto
    then show "jsonLogic H (PDict [(''if'', PList operands)]) data = Inr (rs ! (2 * k + 1))"
      using a len by (simp add: jsonLogic_if list if_op_def)
  next
    assume b: "even (length operands)
            \<and> (\<forall>j. 2 * j + 1 < length operands \<longrightarrow> \<not> truthy H (fst (rs ! (2 * j))))"
    then have "if_loop H (map fst rs) 0 = None"
      using len by (intro if_loop_none) auto
    then show "jsonLogic H (PDict [(''if'', PList operands)]) data = Inr (PNone, PDict [])"
      using b len by (simp add: jsonLogic_if list if_op_def)
  qed
qed


theorem if_selects_branch_witness:
  "jsonLogic exact_host
     (PDict [(''if'', PList [PDict [(''var'', PStr ''a'')], PStr ''first'',
                             PDict [(''var'', PStr ''b'')], PStr ''second'', PStr ''other''])])
     (PDict [(''a'', PInt 0), (''b'', PInt 7)]) = Inr (PStr ''second'', PStr ''second'')
   \<and> jsonLogic exact_host
     (PDict [(''if'', PList [PDict [(''var'', PStr ''a'')], PStr ''first''])])
     (PDict [(''a'', PInt 0), (''b'', PInt 7)]) = Inr (PNone, PDict [])"
proof -
  let ?d = "PDict [(''a'', PInt 0), (''b'', PInt 7)] :: rat pyval"
  let ?va = "PDict [(''var'', PStr ''a'')] :: rat pyval"
  let ?vb = "PDict [(''var'', PStr ''b'')] :: rat pyval"
  let ?ta = "PDict [(''var'', PList [PStr ''a''])] :: rat pyval"
  let ?tb = "PDict [(''var'', PList [PStr ''b''])] :: rat pyval"
  have a: "jsonLogic exact_host ?va ?d = Inr (PInt 0, ?ta)"
    by (simp add: jsonLogic.simps jsonLogic_apply_def with_trace_def get_var_def get_var_try_def
          py_str_def data_or_empty_def)
  have b: "jsonLogic exact_host ?vb ?d = Inr (PInt 7, ?tb)"
    by (simp add: jsonLogic.simps jsonLogic_apply_def with_trace_def get_var_def get_var_try_def
          py_str_def data_or_empty_def)
  have lit: "\<And>s. jsonLogic exact_host (PStr s) ?d = Inr (PStr s, PStr s)"
    by (simp add: jsonLogic.simps)
  let ?ops1 = "[?va, PStr ''first'', ?vb, PStr ''second'', PStr ''other'']"
  let ?rs1 = "[(PInt 0, ?ta), (PStr ''first'', PStr ''first''), (PInt 7, ?tb),
               (PStr ''second'', PStr ''second''), (PStr ''other'', PStr ''other'')]"
  have h1: "\<forall>i<length ?ops1. jsonLogic exact_host (?ops1 ! i) ?d = Inr (?rs1 ! i)"
    using a b lit by (simp add: All_less_Suc2 nth_Cons')
  have j1: "\<forall>j<(1::nat). \<not> truthy exact_host (fst (?rs1 ! (2 * j)))" by simp
  let ?ops2 = "[?va, PStr ''first'']"
  let ?rs2 = "[(PInt 0, ?ta), (PStr ''first'', PStr ''first'')]"
  have h2: "\<forall>i<length ?ops2. jsonLogic exact_host (?ops2 ! i) ?d = Inr (?rs2 ! i)"
    using a lit by (simp add: All_less_Suc2 nth_Cons')
  have j2: "\<forall>j. 2 * j + 1 < length ?ops2 \<longrightarrow> \<not> truthy exact_host (fst (?rs2 ! (2 * j)))"
    by simp
  show ?thesis
    using if_selects_branch [of ?rs1 ?ops1 exact_host ?d 1, OF _ h1]
          if_selects_branch [of ?rs2 ?ops2 exact_host ?d 0, OF _ h2] j1 j2
    by (simp add: exact_host_def)
qed


text \<open>
  The operands are all evaluated before the branch is chosen: an operand that raises
  makes the rule raise, also when its branch would not be taken.
\<close>

lemma if_evaluates_every_operand:
  "jsonLogic H (PDict [(''if'', PList [PBool True, PStr ''yes'', PDict [(''var'', PStr ''z'')]])])
     (PDict [(''a'', PInt 1)]) = Inl (ValueError Unknown_variable)"
  by (simp add: jsonLogic.simps jsonLogic_apply_def with_trace_def get_var_def get_var_try_def
        py_str_def data_or_empty_def Let_def)

text \<open>
  C2. Re-evaluating a trace. The claim that the trace of a successful evaluation always
  evaluates to the same value fails: an \<^verbatim>\<open>if\<close> that takes no branch leaves the empty
  dict as trace, and evaluating the empty dict raises \<^verbatim>\<open>IndexError\<close>.
\<close>

theorem trace_reevaluation_counterexample:
  "jsonLogic exact_host (PDict [(''if'', PList [PBool False, PInt 1])]) (PDict [(''a'', PInt 1)])
     = Inr (PNone, PDict [])
   \<and> jsonLogic exact_host (PDict []) (PDict [(''a'', PInt 1)]) = Inl IndexError"
  by (simp add: jsonLogic.simps jsonLogic_apply_def operation_names_def if_op_def
        if_loop.simps data_or_empty_def)

text \<open>
  C2, as amended: when \<^verbatim>\<open>jsonLogic(rule, data)\<close> returns a value and a trace, evaluating
  the trace against the same data returns the same value (and the trace itself as trace),
  unless the trace holds an empty dict where an operand is evaluated (\<open>has_empty\<close>), left
  there by an \<^verbatim>\<open>if\<close> that took no branch: then, and only then, it raises \<^verbatim>\<open>IndexError\<close>.
\<close>

theorem trace_reevaluation:
  assumes "jsonLogic H rule data = Inr (v, t)"
  shows "(\<not> has_empty t \<longrightarrow> jsonLogic H t data = Inr (v, t))
       \<and> (has_empty t \<longrightarrow> jsonLogic H t data = Inl IndexError)"
  using reeval_aux(1) [of H rule data] assms by simp

theorem trace_reevaluation_witness:
  "jsonLogic exact_host (PDict [(''!'', PDict [(''var'', PStr ''a'')])]) (PDict [(''a'', PInt 1)])
     = Inr (PBool False, PDict [(''!'', PList [PDict [(''var'', PList [PStr ''a''])]])])
   \<and> jsonLogic exact_host (PDict [(''!'', PList [PDict [(''var'', PList [PStr ''a''])]])])
         (PDict [(''a'', PInt 1)])
     = Inr (PBool False, PDict [(''!'', PList [PDict [(''var'', PList [PStr ''a''])]])])
   \<and> jsonLogic exact_host (PDict [(''!'', PDict [(''if'', PList [])])]) (PDict [(''a'', PInt 1)])
     = Inr (PBool True, PDict [(''!'', PList [PDict []])])
   \<and> jsonLogic exact_host (PDict [(''!'', PList [PDict []])]) (PDict [(''a'', PInt 1)])
     = Inl IndexError"
proof -
  let ?d = "PDict [(''a'', PInt 1)] :: rat pyval"
  let ?t1 = "PDict [(''!'', PList [PDict [(''var'', PList [PStr ''a''])]])] :: rat pyval"
  let ?t2 = "PDict [(''!'', PList [PDict []])] :: rat pyval"
  have ev1: "jsonLogic exact_host (PDict [(''!'', PDict [(''var'', PStr ''a'')])]) ?d
               = Inr (PBool False, ?t1)"
    by (simp add: jsonLogic.simps jsonLogic_apply_def operation_names_def operations_def
          args1_def with_trace_def get_var_def get_var_try_def py_str_def data_or_empty_def)
  have ev2: "jsonLogic exact_host (PDict [(''!'', PDict [(''if'', PList [])])]) ?d
               = Inr (PBool True, ?t2)"
    by (simp add: jsonLogic.simps jsonLogic_apply_def operation_names_def operations_def
          args1_def with_trace_def if_op_def if_loop.simps data_or_empty_def)
  have ne1: "\<not> has_empty ?t1" by simp
  have e2: "has_empty ?t2" by simp
  from trace_reevaluation [OF ev1] trace_reevaluation [OF ev2] ne1 e2 ev1 ev2
  show ?thesis by simp
qed

text \<open>
  C3. The operator \<^verbatim>\<open><\<close> on a number and a string that is not a numeric literal.
  \<^verbatim>\<open>less\<close> converts both operands with \<^verbatim>\<open>float\<close> and catches \<^verbatim>\<open>TypeError\<close> only (the
  handler is commented \<^verbatim>\<open># NaN\<close> and returns \<^verbatim>\<open>False\<close>, as it does for \<^verbatim>\<open>None\<close>); but
  \<^verbatim>\<open>float("abc")\<close> raises \<^verbatim>\<open>ValueError\<close>, which escapes from \<^verbatim>\<open>less\<close> and from
  \<^verbatim>\<open>jsonLogic\<close>, for every host and data.
\<close>

theorem less_non_numeric_string:
  "less_op H (PInt 1) (PStr ''abc'') [] = Inl (ValueError Builtin_value_error)
   \<and> jsonLogic H (PDict [(''<'', PList [PInt 1, PStr ''abc''])]) data
       = Inl (ValueError Builtin_value_error)
   \<and> less_op H (PInt 1) PNone [] = Inr False"
  by (simp add: less_op.simps float_pair_def py_float_def num_float_def small_no_overflow
        float_literal_abc jsonLogic.simps jsonLogic_apply_def operation_names_def operations_def
        bool_result_def with_trace_def Let_def)

text \<open>
  C4. Strict equality of an int and a float. \<^verbatim>\<open>hard_equals\<close> first returns \<^verbatim>\<open>False\<close> when
  \<^verbatim>\<open>type(a) != type(b)\<close>, so the int 1 and the float 1.0 are not strictly equal although
  \<^verbatim>\<open>math.isclose\<close> accepts them (their difference is 0).
\<close>

theorem hard_equals_int_float_counterexample:
  "hard_equals exact_host (PInt 1) (PFloat 1) = Inr False
   \<and> exact_isclose (of_int 1) 1"
  by (simp add: hard_equals_def exact_isclose_def)

text \<open>
  C4, as amended: for operands of differing runtime types, an int and a float of the
  same magnitude included, \<^verbatim>\<open>hard_equals\<close> returns \<^verbatim>\<open>False\<close>; for operands of the same
  type it returns \<^verbatim>\<open>True\<close> when they are equal, and for two floats or two ints (in the
  range of a float) also whenever \<^verbatim>\<open>math.isclose\<close> accepts them, that is when their
  relative difference is within 1e-09.
\<close>

theorem hard_equals_same_type:
  "(py_type a \<noteq> py_type b \<longrightarrow> hard_equals H a b = Inr False)
   \<and> (py_type a = py_type b \<and> py_eq H a b \<longrightarrow> hard_equals H a b = Inr True)
   \<and> (f_isclose H x y \<longrightarrow> hard_equals H (PFloat x) (PFloat y) = Inr True)
   \<and> (\<not> float_overflows m \<and> \<not> float_overflows n \<and> f_isclose H (f_of_int H m) (f_of_int H n)
        \<longrightarrow> hard_equals H (PInt m) (PInt n) = Inr True)"
  by (simp add: hard_equals_def almost_equal_def num_float_def)

text \<open>
  With exact arithmetic the tolerance reads: two floats whose difference is at most
  1e-09 times the larger magnitude are strictly equal.
\<close>

lemma exact_tolerance:
  "\<bar>x - y\<bar> \<le> max \<bar>x\<bar> \<bar>y\<bar> / 10 ^ 9 \<Longrightarrow> hard_equals exact_host (PFloat x) (PFloat y) = Inr True"
  by (auto simp: hard_equals_def almost_equal_def num_float_def exact_host_def exact_isclose_def max_def abs_minus_commute split: if_splits)

theorem hard_equals_same_type_witness:
  "hard_equals exact_host (PInt 1) (PStr ''1'') = Inr False
   \<and> hard_equals exact_host (PStr ''a'') (PStr ''a'') = Inr True
   \<and> hard_equals exact_host (PFloat 1) (PFloat (1 + 1 / 10 ^ 10)) = Inr True
   \<and> hard_equals exact_host (PInt (10 ^ 10)) (PInt (10 ^ 10 + 1)) = Inr True"
proof -
  have 1: "py_type (PInt 1 :: rat pyval) \<noteq> py_type (PStr ''1'' :: rat pyval)" by simp
  have 2: "py_type (PStr ''a'' :: rat pyval) = py_type (PStr ''a'' :: rat pyval)
           \<and> py_eq exact_host (PStr ''a'') (PStr ''a'')" by simp
  have 3: "f_isclose exact_host 1 (1 + 1 / 10 ^ 10)"
    by (simp add: exact_host_def exact_isclose_def)
  have 4: "\<not> float_overflows (10 ^ 10) \<and> \<not> float_overflows (10 ^ 10 + 1)
           \<and> f_isclose exact_host (f_of_int exact_host (10 ^ 10)) (f_of_int exact_host (10 ^ 10 + 1))"
    by (simp add: exact_host_def exact_isclose_def float_overflows_def)
  show ?thesis
    using hard_equals_same_type [of "PInt 1" "PStr ''1''" exact_host]
          hard_equals_same_type [of "PStr ''a''" "PStr ''a''" exact_host]
          hard_equals_same_type [of PNone PNone exact_host 1 "1 + 1 / 10 ^ 10" "10 ^ 10" "10 ^ 10 + 1"]
          1 2 3 4
    by blast
qed

text \<open>
  C5. A \<^verbatim>\<open>var\<close> with the empty path. \<^verbatim>\<open>"".split(".")\<close> is \<^verbatim>\<open>[""]\<close>, so \<^verbatim>\<open>get_var\<close> looks
  up the key \<^verbatim>\<open>""\<close>; in a data context without that key the lookup fails and, no default
  being given, \<^verbatim>\<open>ValueError("Unknown variable: ")\<close> is raised: the data context is not
  returned.
\<close>

theorem var_empty_path_counterexample:
  "jsonLogic exact_host (PDict [(''var'', PStr '''')]) (PDict [(''a'', PInt 1)])
     = Inl (ValueError Unknown_variable)"
  by (simp add: jsonLogic.simps jsonLogic_apply_def with_trace_def get_var_def get_var_try_def
        py_str_def data_or_empty_def)

text \<open>
  C5, as amended: \<^verbatim>\<open>{"var": ""}\<close> returns \<^verbatim>\<open>data[""]\<close> when the data context (after
  \<^verbatim>\<open>data or {}\<close>) is a dict with the key \<^verbatim>\<open>""\<close>, and raises the unknown-variable
  \<^verbatim>\<open>ValueError\<close> in every other case; a \<^verbatim>\<open>var\<close> with no operand at all raises \<^verbatim>\<open>TypeError\<close>
  (\<^verbatim>\<open>get_var\<close> is called without its \<^verbatim>\<open>var_name\<close>).
\<close>

theorem var_empty_path:
  "jsonLogic H (PDict [(''var'', PStr [])]) data =
     (case data_or_empty H data of
        PDict kvs \<Rightarrow> (case map_of kvs [] of
                       Some v \<Rightarrow> Inr (v, PDict [(''var'', PList [PStr []])])
                     | None \<Rightarrow> Inl (ValueError Unknown_variable))
      | _ \<Rightarrow> Inl (ValueError Unknown_variable))
   \<and> jsonLogic H (PDict [(''var'', PList [])]) data = Inl TypeError"
  by (simp add: jsonLogic.simps jsonLogic_apply_def with_trace_def Let_def get_var_empty_path
        split: pyval.splits option.splits)

text \<open>
  C6. \<^verbatim>\<open>missing_some(data, min_required, names)\<close> on the list \<^verbatim>\<open>[1, 2]\<close> as data, with
  \<^verbatim>\<open>min_required = 1\<close> and the one name \<^verbatim>\<open>"5"\<close>. The lookup of \<^verbatim>\<open>"5"\<close> fails: the list has
  no index 5. The scan should then end below the threshold and return \<^verbatim>\<open>["5"]\<close>, as it
  does on a dict without the key \<^verbatim>\<open>"5"\<close>, whose \<^verbatim>\<open>KeyError\<close> is caught. But \<^verbatim>\<open>get_var\<close>
  catches \<^verbatim>\<open>KeyError\<close>, \<^verbatim>\<open>TypeError\<close> and \<^verbatim>\<open>ValueError\<close> only: the \<^verbatim>\<open>IndexError\<close> of
  \<^verbatim>\<open>data[int(key)]\<close> escapes from \<^verbatim>\<open>get_var\<close>, from \<^verbatim>\<open>missing_some\<close> and from
  \<^verbatim>\<open>jsonLogic\<close>, for every host.
\<close>

theorem missing_some_index_error:
  "missing_some H (PList [PInt 1, PInt 2]) (PInt 1) (PList [PStr ''5'']) = Inl IndexError
   \<and> jsonLogic H (PDict [(''missing_some'', PList [PInt 1, PList [PStr ''5'']])])
         (PList [PInt 1, PInt 2]) = Inl IndexError
   \<and> missing_some H (PDict [(''a'', PInt 1)]) (PInt 1) (PList [PStr ''5'']) = Inr [PStr ''5'']"
  by (simp add: missing_some_def is_not_found_def get_var_try_def py_str_def int_of_str_5
        seq_index_def jsonLogic.simps jsonLogic_apply_def with_trace_def list_result_def
        args2_def data_or_empty_def Let_def)

text \<open>
  Where every lookup returns (found, or not found through the handler of \<^verbatim>\<open>get_var\<close>)
  and \<^verbatim>\<open>min_required\<close> is an int \<open>m\<close>, the scan is as described: the empty list at once
  when \<open>m < 1\<close>, whatever the names; the empty list as soon as the \<open>m\<close>-th name is found,
  whatever follows it (\<open>post\<close> is not scanned); and the names not found, in their order,
  when the scan of all the names ends with fewer than \<open>m\<close> found.
\<close>

lemma missing_some_scan:
  "(m < 1 \<longrightarrow> missing_some H data (PInt m) names = Inr [])
   \<and> (1 \<le> m \<and> lookups_return H data pre \<and> is_not_found H data a = Inr False
        \<and> int (found_count H data pre) + 1 = m
      \<longrightarrow> missing_some H data (PInt m) (PList (pre @ a # post)) = Inr [])
   \<and> (1 \<le> m \<and> lookups_return H data ns \<and> int (found_count H data ns) < m
      \<longrightarrow> missing_some H data (PInt m) (PList ns)
            = Inr (filter (\<lambda>x. is_not_found H data x = Inr True) ns))"
  using missing_some_loop_completes [of H data ns 0 m "[]"]
        missing_some_loop_satisfied [of H data pre a 0 m "[]" post]
  by (simp add: missing_some_def)

lemma missing_some_scan_example:
  "missing_some exact_host (PDict [(''a'', PStr ''apple'')]) (PInt 0) (PInt 5) = Inr []
   \<and> missing_some exact_host (PDict [(''a'', PStr ''apple'')]) (PInt 1)
        (PList [PStr ''b'', PStr ''a'', PStr ''c'']) = Inr []
   \<and> missing_some exact_host (PDict [(''a'', PStr ''apple'')]) (PInt 2)
        (PList [PStr ''a'', PStr ''b'', PStr ''c'']) = Inr [PStr ''b'', PStr ''c'']"
proof -
  let ?d = "PDict [(''a'', PStr ''apple'')] :: rat pyval"
  have 1: "lookups_return exact_host ?d [PStr ''b'']"
    by (simp add: lookups_return_def apple_lacks_b)
  have 2: "int (found_count exact_host ?d [PStr ''b'']) + 1 = 1"
    by (simp add: found_count_def apple_lacks_b)
  have 3: "lookups_return exact_host ?d [PStr ''a'', PStr ''b'', PStr ''c'']"
    by (simp add: lookups_return_def apple_has_a apple_lacks_b apple_lacks_c)
  have 4: "int (found_count exact_host ?d [PStr ''a'', PStr ''b'', PStr ''c'']) < 2"
    by (simp add: found_count_def apple_has_a apple_lacks_b apple_lacks_c)
  show ?thesis
    using missing_some_scan [of 0 exact_host ?d "PInt 5"]
          missing_some_scan [of 1 exact_host ?d _ "[PStr ''b'']" "PStr ''a''" "[PStr ''c'']"]
          missing_some_scan [of 2 exact_host ?d _ _ _ _ "[PStr ''a'', PStr ''b'', PStr ''c'']"]
          1 2 3 4 apple_has_a apple_lacks_b apple_lacks_c
    by simp
qed

text \<open>
  C7. A rule that is not a dict (null, a boolean, a number, a string or a list) is
  returned unchanged as the value and as the trace, whatever the data.
\<close>

theorem jsonLogic_primitive:
  "py_type tests \<noteq> Dict_t \<Longrightarrow> jsonLogic H tests data = Inr (tests, tests)"
  by (cases tests) (simp_all add: jsonLogic.simps)

theorem jsonLogic_primitive_witness:
  "py_type (PList [PInt 1, PStr ''a'', PDict [(''var'', PStr ''a'')]] :: rat pyval) \<noteq> Dict_t
   \<and> jsonLogic exact_host (PList [PInt 1, PStr ''a'', PDict [(''var'', PStr ''a'')]])
         (PDict [(''a'', PInt 1)])
       = Inr (PList [PInt 1, PStr ''a'', PDict [(''var'', PStr ''a'')]],
              PList [PInt 1, PStr ''a'', PDict [(''var'', PStr ''a'')]])"
  using jsonLogic_primitive
    [of "PList [PInt 1, PStr ''a'', PDict [(''var'', PStr ''a'')]] :: rat pyval"
        exact_host "PDict [(''a'', PInt 1)]"]
  by simp

text \<open>
  C8. The error of an empty dict. Evaluating \<^verbatim>\<open>{}\<close> raises the \<^verbatim>\<open>IndexError\<close> of
  \<^verbatim>\<open>list(tests.keys())[0]\<close>; the code has no error kind for malformed rules. A caller
  cannot tell that error from the one of a variable that is not found: the lookup of
  \<^verbatim>\<open>"5"\<close> in the list \<^verbatim>\<open>[1, 2]\<close> raises \<^verbatim>\<open>IndexError\<close> too.
\<close>

theorem empty_mapping_counterexample:
  "jsonLogic exact_host (PDict []) (PList [PInt 1, PInt 2]) = Inl IndexError
   \<and> jsonLogic exact_host (PDict [(''var'', PStr ''5'')]) (PList [PInt 1, PInt 2]) = Inl IndexError"
  by (simp add: jsonLogic.simps jsonLogic_apply_def with_trace_def get_var_def get_var_try_def
        py_str_def int_of_str_5 seq_index_def data_or_empty_def Let_def)

text \<open>
  C8, as amended: evaluating the empty dict raises \<^verbatim>\<open>IndexError\<close>, for every data. The
  errors that the code raises itself are of another class, \<^verbatim>\<open>ValueError\<close>: "Unknown
  variable" when the handler of a \<^verbatim>\<open>var\<close> lookup runs and no default is given, and
  "Unrecognized operation" for an operator outside the table and the three variable
  operators, once its operands are evaluated. \<^verbatim>\<open>IndexError\<close> is not reserved to the empty
  dict: the operator \<^verbatim>\<open>-\<close> without operands raises it as well.
\<close>

theorem empty_mapping_index_error:
  "jsonLogic H (PDict []) data = Inl IndexError
   \<and> (py_type var_name \<noteq> Dict_t \<longrightarrow>
        jsonLogic H (PDict [(''var'', PList [var_name])]) data =
          (case get_var_try H (data_or_empty H data) var_name of
             Inl e \<Rightarrow> Inl e
           | Inr None \<Rightarrow> Inl (ValueError Unknown_variable)
           | Inr (Some v) \<Rightarrow> Inr (v, PDict [(''var'', PList [var_name])])))
   \<and> (operator \<notin> set ([''var'', ''missing'', ''missing_some''] @ operation_names) \<longrightarrow>
        jsonLogic H (PDict ((operator, PList vs) # rest)) data =
          (case jsonLogic_list H vs (data_or_empty H data) of
             Inl e \<Rightarrow> Inl e
           | Inr rs \<Rightarrow> Inl (ValueError Unrecognized_operation)))
   \<and> jsonLogic H (PDict [(''-'', PList [])]) data = Inl IndexError"
proof (intro conjI impI)
  show "jsonLogic H (PDict []) data = Inl IndexError" by (simp add: jsonLogic.simps)
next
  assume "py_type var_name \<noteq> Dict_t"
  then show "jsonLogic H (PDict [(''var'', PList [var_name])]) data =
          (case get_var_try H (data_or_empty H data) var_name of
             Inl e \<Rightarrow> Inl e
           | Inr None \<Rightarrow> Inl (ValueError Unknown_variable)
           | Inr (Some v) \<Rightarrow> Inr (v, PDict [(''var'', PList [var_name])]))"
    by (simp add: jsonLogic_operation_node jsonLogic_non_dict jsonLogic_apply_def
          with_trace_def get_var_def split: sum.splits option.splits)
next
  assume "operator \<notin> set ([''var'', ''missing'', ''missing_some''] @ operation_names)"
  then have "operator \<noteq> ''var''" "operator \<noteq> ''missing''" "operator \<noteq> ''missing_some''"
    "operator \<notin> set operation_names" by auto
  then show "jsonLogic H (PDict ((operator, PList vs) # rest)) data =
          (case jsonLogic_list H vs (data_or_empty H data) of
             Inl e \<Rightarrow> Inl e
           | Inr rs \<Rightarrow> Inl (ValueError Unrecognized_operation))"
    by (simp add: jsonLogic_operation_node jsonLogic_apply_def split: sum.splits)
next
  show "jsonLogic H (PDict [(''-'', PList [])]) data = Inl IndexError"
    by (simp add: jsonLogic.simps Let_def jsonLogic_apply_def operation_names_def operations_def
          minus_op_def with_trace_def)
qed

theorem empty_mapping_index_error_witness:
  "jsonLogic exact_host (PDict [(''var'', PList [PStr ''z''])]) (PDict [(''a'', PInt 1)])
     = Inl (ValueError Unknown_variable)
   \<and> jsonLogic exact_host (PDict [(''bogus'', PList [PInt 1, PInt 2])]) (PDict [(''a'', PInt 1)])
     = Inl (ValueError Unrecognized_operation)"
proof -
  have 1: "py_type (PStr ''z'' :: rat pyval) \<noteq> Dict_t" by simp
  have 2: "''bogus'' \<notin> set ([''var'', ''missing'', ''missing_some''] @ operation_names)"
    by (simp add: operation_names_def)
  have 3: "get_var_try exact_host (data_or_empty exact_host (PDict [(''a'', PInt 1)])) (PStr ''z'')
             = Inr None"
    by (simp add: get_var_try_def py_str_def data_or_empty_def)
  have 4: "jsonLogic_list exact_host [PInt 1, PInt 2]
             (data_or_empty exact_host (PDict [(''a'', PInt 1)])) = Inr [(PInt 1, PInt 1), (PInt 2, PInt 2)]"
    by (simp add: jsonLogic.simps)
  show ?thesis
    using empty_mapping_index_error
            [of exact_host "PDict [(''a'', PInt 1)]" "PStr ''z''" "''bogus''" "[PInt 1, PInt 2]" "[]"]
          1 2 3 4
    by simp
qed

text \<open>
  C10. With no operand \<^verbatim>\<open>and\<close> returns \<^verbatim>\<open>True\<close> and \<^verbatim>\<open>or\<close> returns \<^verbatim>\<open>False\<close>, the
  initial values of the two folds; so do the rules \<^verbatim>\<open>{"and": []}\<close> and \<^verbatim>\<open>{"or": []}\<close> for
  every data, with the rule itself as trace.
\<close>

theorem and_or_empty:
  "operations H ''and'' [] = Inr (PBool True)
   \<and> operations H ''or'' [] = Inr (PBool False)
   \<and> jsonLogic H (PDict [(''and'', PList [])]) data
       = Inr (PBool True, PDict [(''and'', PList [])])
   \<and> jsonLogic H (PDict [(''or'', PList [])]) data
       = Inr (PBool False, PDict [(''or'', PList [])])"
  by (simp add: jsonLogic.simps jsonLogic_apply_def operations_def operation_names_def
        with_trace_def)

end
